theory Spec2Isabelle
  imports Main "HOL-Library.Word"
begin

unbundle bit_operations_syntax

section \<open>JavaScript values used by the port-control library\<close>

text \<open>
  Exceptions and promise rejections are values.  A settled promise is a sum:
  \<open>Inl e\<close> is a rejection (or a thrown exception) and \<open>Inr v\<close> a fulfilment.
  JavaScript numbers that the library handles are integers and are modelled as \<open>int\<close>;
  \<open>undefined\<close> is \<open>None\<close>.
\<close>

datatype error = TypeError | RangeError | ParseError | Failure string

type_synonym byte = "8 word"
type_synonym ArrayBuffer = "byte list"

section \<open>utils.ts: the byte-matrix codec\<close>

text \<open>\<open>new ArrayBuffer(bytes)\<close>: zero-filled.\<close>

definition new_ArrayBuffer :: "nat \<Rightarrow> ArrayBuffer" where
  "new_ArrayBuffer bytes = replicate bytes 0"

text \<open>
  The \<open>DataView\<close> setters convert the value modulo \<open>2 ^ width\<close>, store it
  big-endian (the calls pass \<open>littleEndian = false\<close>) and throw a RangeError when the
  field does not fit in the buffer.
\<close>

definition in_range :: "ArrayBuffer \<Rightarrow> int \<Rightarrow> nat \<Rightarrow> bool" where
  "in_range buf off n = (0 \<le> off \<and> nat off + n \<le> length buf)"

definition setInt8 :: "ArrayBuffer \<Rightarrow> int \<Rightarrow> int \<Rightarrow> error + ArrayBuffer" where
  "setInt8 buf off v =
     (if in_range buf off 1 then Inr (buf[nat off := word_of_int v]) else Inl RangeError)"

definition setInt16 :: "ArrayBuffer \<Rightarrow> int \<Rightarrow> int \<Rightarrow> error + ArrayBuffer" where
  "setInt16 buf off v =
     (if in_range buf off 2
      then let w = (word_of_int v :: 16 word) in
        Inr (buf[nat off := ucast (drop_bit 8 w), nat off + 1 := ucast w])
      else Inl RangeError)"

definition setInt32 :: "ArrayBuffer \<Rightarrow> int \<Rightarrow> int \<Rightarrow> error + ArrayBuffer" where
  "setInt32 buf off v =
     (if in_range buf off 4
      then let w = (word_of_int v :: 32 word) in
        Inr (buf[nat off := ucast (drop_bit 24 w), nat off + 1 := ucast (drop_bit 16 w),
                 nat off + 2 := ucast (drop_bit 8 w), nat off + 3 := ucast w])
      else Inl RangeError)"

text \<open>The getters read big-endian and unsigned; out of range they throw a RangeError.\<close>

definition getUint8 :: "ArrayBuffer \<Rightarrow> int \<Rightarrow> error + int" where
  "getUint8 buf off =
     (if in_range buf off 1 then Inr (uint (buf ! nat off)) else Inl RangeError)"

definition getUint16 :: "ArrayBuffer \<Rightarrow> int \<Rightarrow> error + int" where
  "getUint16 buf off =
     (if in_range buf off 2
      then Inr (uint (buf ! nat off) * 256 + uint (buf ! (nat off + 1)))
      else Inl RangeError)"

definition getUint32 :: "ArrayBuffer \<Rightarrow> int \<Rightarrow> error + int" where
  "getUint32 buf off =
     (if in_range buf off 4
      then Inr (uint (buf ! nat off) * 16777216 + uint (buf ! (nat off + 1)) * 65536
                + uint (buf ! (nat off + 2)) * 256 + uint (buf ! (nat off + 3)))
      else Inl RangeError)"

text \<open>
  \<open>createArrayBuffer(bytes, matrix)\<close>: every row is \<open>[bits, byteOffset, value]\<close>.
  A row of another width only logs to the console and is skipped.
\<close>

type_synonym row = "int \<times> int \<times> int"

fun writeRows :: "ArrayBuffer \<Rightarrow> row list \<Rightarrow> error + ArrayBuffer" where
  "writeRows buf [] = Inr buf"
| "writeRows buf ((bits, off, v) # matrix) =
     (if bits = 8 then
        (case setInt8 buf off v of Inl e \<Rightarrow> Inl e | Inr b \<Rightarrow> writeRows b matrix)
      else if bits = 16 then
        (case setInt16 buf off v of Inl e \<Rightarrow> Inl e | Inr b \<Rightarrow> writeRows b matrix)
      else if bits = 32 then
        (case setInt32 buf off v of Inl e \<Rightarrow> Inl e | Inr b \<Rightarrow> writeRows b matrix)
      else writeRows buf matrix)"

definition createArrayBuffer :: "nat \<Rightarrow> row list \<Rightarrow> error + ArrayBuffer" where
  "createArrayBuffer bytes matrix = writeRows (new_ArrayBuffer bytes) matrix"

text \<open>The offsets a matrix writes: a row of width 8, 16 or 32 covers 1, 2 or 4 bytes.\<close>

fun covers :: "row \<Rightarrow> nat \<Rightarrow> bool" where
  "covers (bits, off, v) j =
     ((bits = 8 \<or> bits = 16 \<or> bits = 32) \<and> off \<le> int j \<and> int j < off + bits div 8)"

definition written :: "row list \<Rightarrow> nat \<Rightarrow> bool" where
  "written matrix j = list_ex (\<lambda>r. covers r j) matrix"

section \<open>pcp.ts: the MAP request of sendPcpRequest\<close>

text \<open>
  An array element read past the end is \<open>undefined\<close>, which the \<open>DataView\<close>
  setters store as 0.
\<close>

definition elem :: "int list \<Rightarrow> nat \<Rightarrow> int" where
  "elem xs k = (if k < length xs then xs ! k else 0)"

definition pcpMatrix :: "int list \<Rightarrow> int \<Rightarrow> int \<Rightarrow> int \<Rightarrow> int list \<Rightarrow> row list" where
  "pcpMatrix ipOctets intPort extPort lifetime nonce =
     [(32, 0, 0x2010000),
      (32, 4, lifetime),
      (16, 18, 0xffff),
      (8, 20, elem ipOctets 0),
      (8, 21, elem ipOctets 1),
      (8, 22, elem ipOctets 2),
      (8, 23, elem ipOctets 3),
      (32, 24, elem nonce 0),
      (32, 28, elem nonce 1),
      (32, 32, elem nonce 2),
      (8, 36, 17),
      (16, 40, intPort),
      (16, 42, extPort),
      (16, 54, 0xffff)]"

definition pcpBuffer :: "int list \<Rightarrow> int \<Rightarrow> int \<Rightarrow> int \<Rightarrow> int list \<Rightarrow> error + ArrayBuffer" where
  "pcpBuffer ipOctets intPort extPort lifetime nonce =
     createArrayBuffer 60 (pcpMatrix ipOctets intPort extPort lifetime nonce)"

section \<open>utils.ts: IP utilities\<close>

text \<open>
  Modelled from the spec: \<open>ipaddr.IPv4.parse\<close> and \<open>IPv4.match\<close> of ipaddr.js,
  which utils.ts imports and which is not among the sources.  For the spec an address
  is an IPv4 dotted quad, and two addresses match on a prefix when their leading bits
  agree.  The model covers the canonical notation, four decimal parts without leading
  zeros, each at most 255; every other string is unparsable here (\<open>parse\<close> throws).
  \<open>undefined\<close> is unparsable as well.
\<close>

definition isDigit :: "char \<Rightarrow> bool" where
  "isDigit c = (48 \<le> (of_char c :: nat) \<and> (of_char c :: nat) \<le> 57)"

fun splitDots :: "string \<Rightarrow> string list" where
  "splitDots [] = [[]]"
| "splitDots (c # cs) =
     (if c = CHR ''.'' then [] # splitDots cs
      else (case splitDots cs of [] \<Rightarrow> [[c]] | p # ps \<Rightarrow> (c # p) # ps))"

definition decimalValue :: "string \<Rightarrow> int" where
  "decimalValue ds = foldl (\<lambda>acc c. acc * 10 + (int (of_char c) - 48)) 0 ds"

definition parseOctet :: "string \<Rightarrow> int option" where
  "parseOctet ds =
     (if ds \<noteq> [] \<and> length ds \<le> 3 \<and> list_all isDigit ds
         \<and> (length ds = 1 \<or> hd ds \<noteq> CHR ''0'') \<and> decimalValue ds \<le> 255
      then Some (decimalValue ds) else None)"

definition IPv4_parse :: "string option \<Rightarrow> error + int list" where
  "IPv4_parse s =
     (case s of
        None \<Rightarrow> Inl ParseError
      | Some str \<Rightarrow>
          (case map parseOctet (splitDots str) of
             [Some a, Some b, Some c, Some d] \<Rightarrow> Inr [a, b, c, d]
           | _ \<Rightarrow> Inl ParseError))"

text \<open>
  Modelled from the spec: \<open>matchCIDR(first, second, 8, cidrBits)\<close>, the body of
  \<open>IPv4.match\<close> in ipaddr.js.  The leading \<open>cidrBits\<close> bits agree: the octets are
  compared from the left, the last one shifted right by \<open>8 - cidrBits\<close> (never by a
  negative amount).
\<close>

fun matchCIDR :: "int list \<Rightarrow> int list \<Rightarrow> nat \<Rightarrow> bool" where
  "matchCIDR (a # first) (b # second) cidrBits =
     (if cidrBits = 0 then True
      else if a div 2 ^ (8 - cidrBits) \<noteq> b div 2 ^ (8 - cidrBits) then False
      else matchCIDR first second (cidrBits - 8))"
| "matchCIDR _ _ cidrBits = True"

definition IPv4_match :: "int list \<Rightarrow> int list \<Rightarrow> nat \<Rightarrow> bool" where
  "IPv4_match ip other cidrRange = matchCIDR ip other cidrRange"

text \<open>
  The inner loop of \<open>longestPrefixMatch\<close>: the first \<open>mask\<close> in 1..31 that does not
  match pushes \<open>mask - 1\<close>; when every mask up to 31 matches, nothing is pushed.
\<close>

definition pushedPrefix :: "int list \<Rightarrow> int list \<Rightarrow> int option" where
  "pushedPrefix ip matchIp =
     (case find (\<lambda>maskLen. \<not> IPv4_match ip matchIp maskLen) [1..<32] of
        None \<Rightarrow> None
      | Some maskLen \<Rightarrow> Some (int maskLen - 1))"

fun prefixMatches :: "string list \<Rightarrow> int list \<Rightarrow> error + int list" where
  "prefixMatches [] matchIp = Inr []"
| "prefixMatches (v # ipList) matchIp =
     (case IPv4_parse (Some v) of
        Inl e \<Rightarrow> Inl e
      | Inr ip \<Rightarrow>
          (case prefixMatches ipList matchIp of
             Inl e \<Rightarrow> Inl e
           | Inr rest \<Rightarrow>
               Inr (case pushedPrefix ip matchIp of None \<Rightarrow> rest | Some p \<Rightarrow> p # rest)))"

text \<open>\<open>Math.max.apply(null, xs)\<close>; \<open>None\<close> is \<open>-Infinity\<close>, the value for no arguments.\<close>

definition Math_max :: "int list \<Rightarrow> int option" where
  "Math_max xs = (case xs of [] \<Rightarrow> None | x # rest \<Rightarrow> Some (fold max rest x))"

text \<open>\<open>xs.indexOf(v)\<close>: the first index holding \<open>v\<close>, or -1.\<close>

fun indexOf :: "'a list \<Rightarrow> 'a \<Rightarrow> int" where
  "indexOf [] v = -1"
| "indexOf (x # xs) v =
     (if x = v then 0 else (let i = indexOf xs v in if i = -1 then -1 else i + 1))"

text \<open>\<open>xs[i]\<close>: \<open>undefined\<close> outside the array.\<close>

definition at_index :: "'a list \<Rightarrow> int \<Rightarrow> 'a option" where
  "at_index xs i = (if 0 \<le> i \<and> nat i < length xs then Some (xs ! nat i) else None)"

definition longestPrefixMatch :: "string list \<Rightarrow> string option \<Rightarrow> error + string option" where
  "longestPrefixMatch ipList matchIp =
     (case IPv4_parse matchIp of
        Inl e \<Rightarrow> Inl e
      | Inr m \<Rightarrow>
          (case prefixMatches ipList m of
             Inl e \<Rightarrow> Inl e
           | Inr pm \<Rightarrow>
               (let maxIndex = (case Math_max pm of None \<Rightarrow> -1 | Some mx \<Rightarrow> indexOf pm mx)
                in Inr (at_index ipList maxIndex))))"

definition ROUTER_IPS :: "string list" where
  "ROUTER_IPS = [''192.168.1.1'', ''192.168.2.1'', ''192.168.11.1'',
     ''192.168.0.1'', ''192.168.0.30'', ''192.168.0.50'', ''192.168.20.1'',
     ''192.168.30.1'', ''192.168.62.1'', ''192.168.100.1'', ''192.168.102.1'',
     ''192.168.1.254'', ''192.168.10.1'', ''192.168.123.254'', ''192.168.4.1'',
     ''10.0.1.1'', ''10.1.1.1'', ''10.0.0.13'', ''10.0.0.2'', ''10.0.0.138'']"

definition PCP_PROBE_PORT :: int where
  "PCP_PROBE_PORT = 55556"

fun filterRouterIps :: "string list \<Rightarrow> error + string option list" where
  "filterRouterIps [] = Inr []"
| "filterRouterIps (privateIp # privateIps) =
     (case longestPrefixMatch ROUTER_IPS (Some privateIp) of
        Inl e \<Rightarrow> Inl e
      | Inr r \<Rightarrow>
          (case filterRouterIps privateIps of
             Inl e \<Rightarrow> Inl e
           | Inr routerIps \<Rightarrow> Inr (r # routerIps)))"

text \<open>\<open>arrDiff\<close>: the elements of \<open>listA\<close> that \<open>listB\<close> does not include.\<close>

definition arrDiff :: "'a list \<Rightarrow> 'a list \<Rightarrow> 'a list" where
  "arrDiff listA listB = filter (\<lambda>val. val \<notin> set listB) listA"

text \<open>\<open>arrAdd\<close>: both arrays in order, each value pushed the first time it is seen.\<close>

fun pushUnique :: "'a list \<Rightarrow> 'a list \<Rightarrow> 'a list" where
  "pushUnique acc [] = acc"
| "pushUnique acc (val # vals) =
     pushUnique (if val \<in> set acc then acc else acc @ [val]) vals"

definition arrAdd :: "'a list \<Rightarrow> 'a list \<Rightarrow> 'a list" where
  "arrAdd listA listB = pushUnique [] (listA @ listB)"

section \<open>The Mapping object, the orchestrator's tables and the environment\<close>

text \<open>
  A \<open>deleter\<close> is the closure \<open>deleteMapping.bind({}, extPort, activeMappings,
  routerIpCache)\<close> of the protocol that made the mapping.  The NAT-PMP and UPnP modules
  are not among the sources; their deleters are \<open>ForeignDeleter\<close>.
\<close>

datatype deleter = PcpDeleter int | ForeignDeleter

record Mapping =
  internalIp :: "string option"
  externalIp :: "string option"
  internalPort :: "int option"
  externalPort :: int
  lifetime :: "int option"
  protocol :: "string option"
  timeoutId :: "nat option"
  nonce :: "int list option"
  deleter :: "deleter option"
  errInfo :: "string option"

text \<open>\<open>new utils.Mapping()\<close>: \<open>externalPort\<close> starts at -1, everything else undefined.\<close>

definition new_Mapping :: Mapping where
  "new_Mapping = \<lparr> internalIp = None, externalIp = None, internalPort = None,
     externalPort = -1, lifetime = None, protocol = None, timeoutId = None,
     nonce = None, deleter = None, errInfo = None \<rparr>"

text \<open>
  What a timer does when it fires.  \<open>Refresh intPort extPort lifetime\<close> is
  \<open>addMapping.bind({}, intPort, extPort, lifetime, activeMappings)\<close> (the bound call
  passes no \<open>routerIpCache\<close>); \<open>Evict extPort\<close> is
  \<open>delete activeMappings[extPort]\<close>.  The delay is in milliseconds.
\<close>

datatype timer_action = Refresh int int int | Evict int

record timer =
  timer_id :: nat
  delay :: int
  action :: timer_action

record ProtocolCompatibilityTable =
  natPmp :: "bool option"
  pcp :: "bool option"
  upnp :: "bool option"
  upnpControlUrl :: "string option"

text \<open>
  The state of one \<open>PortControl\<close> instance with the part of the runtime it acts on:
  the pending timers, the datagrams handed to \<open>socket.sendTo\<close> (router IP and
  payload, always to port 5351), and how many times the local IPs and random numbers
  were asked for.  \<open>activeMappings\<close> is a plain object keyed by external port.
\<close>

record PortControl =
  activeMappings :: "(int \<times> Mapping) list"
  routerIpCache :: "string list"
  protocolSupportCache :: ProtocolCompatibilityTable
  timers :: "timer list"
  nextTimerId :: nat
  sent :: "(string \<times> ArrayBuffer) list"
  ipCalls :: nat
  randCalls :: nat

text \<open>
  The environment answers what the program cannot decide: the host candidates the
  \<open>n\<close>-th enumeration of local IPs collects, the \<open>n\<close>-th random number, and the
  reply of a router to the \<open>n\<close>-th datagram within the two-second timeout
  (\<open>None\<close>: no reply).
\<close>

record env =
  hostIps :: "nat \<Rightarrow> string list"
  random :: "nat \<Rightarrow> int"
  router :: "nat \<Rightarrow> string \<Rightarrow> ArrayBuffer \<Rightarrow> ArrayBuffer option"

definition setTimeout :: "timer_action \<Rightarrow> int \<Rightarrow> PortControl \<Rightarrow> nat \<times> PortControl" where
  "setTimeout act ms st =
     (nextTimerId st,
      st\<lparr> timers := timers st @ [\<lparr> timer_id = nextTimerId st, delay = ms, action = act \<rparr>],
          nextTimerId := nextTimerId st + 1 \<rparr>)"

text \<open>\<open>clearTimeout(id)\<close>; \<open>clearTimeout(undefined)\<close> does nothing.\<close>

definition clearTimeout :: "nat option \<Rightarrow> PortControl \<Rightarrow> PortControl" where
  "clearTimeout tid st =
     (case tid of
        None \<Rightarrow> st
      | Some i \<Rightarrow> st\<lparr> timers := filter (\<lambda>t. timer_id t \<noteq> i) (timers st) \<rparr>)"

text \<open>\<open>getPrivateIps\<close> fulfils with the collected IPs, or rejects when there are none.\<close>

definition getPrivateIps :: "env \<Rightarrow> PortControl \<Rightarrow> (error + string list) \<times> PortControl" where
  "getPrivateIps e st =
     (let privateIps = hostIps e (ipCalls st);
          st' = st\<lparr> ipCalls := ipCalls st + 1 \<rparr>
      in if length privateIps > 0 then (Inr privateIps, st')
         else (Inl (Failure ''getPrivateIps() failed''), st'))"

text \<open>
  \<open>utils.randInt(0, 0xffffffff)\<close>: the source scales \<open>Math.random()\<close>; the integer
  that results is the environment's.
\<close>

definition randInt32 :: "env \<Rightarrow> PortControl \<Rightarrow> int \<times> PortControl" where
  "randInt32 e st = (random e (randCalls st), st\<lparr> randCalls := randCalls st + 1 \<rparr>)"

section \<open>pcp.ts: sendPcpRequest\<close>

text \<open>
  The result has two layers.  The outer error is an exception thrown while the call
  runs (\<open>ipaddr.IPv4.parse(privateIp)\<close>); the inner one is the rejection of the
  returned promise (the two-second countdown).  A value that is \<open>undefined\<close> where a
  number is stored goes through \<open>numberOr0\<close>.
\<close>

definition numberOr0 :: "int option \<Rightarrow> int" where
  "numberOr0 v = (case v of None \<Rightarrow> 0 | Some n \<Rightarrow> n)"

text \<open>A nonce that is not given is made of three random 32-bit numbers.\<close>

definition pickNonce :: "env \<Rightarrow> int list option \<Rightarrow> PortControl \<Rightarrow> int list \<times> PortControl" where
  "pickNonce e nonce' st =
     (case nonce' of
        Some n \<Rightarrow> (n, st)
      | None \<Rightarrow>
          (let (r0, sa) = randInt32 e st; (r1, sb) = randInt32 e sa; (r2, sc) = randInt32 e sb
           in ([r0, r1, r2], sc)))"

definition sendPcpRequest ::
  "env \<Rightarrow> string \<Rightarrow> string option \<Rightarrow> int \<Rightarrow> int \<Rightarrow> int \<Rightarrow> int list option \<Rightarrow> PortControl
     \<Rightarrow> (error + (error + ArrayBuffer)) \<times> PortControl" where
  "sendPcpRequest e routerIp privateIp intPort extPort lifetime' nonce' st =
     (case pickNonce e nonce' st of
        (nonce1, st1) \<Rightarrow>
          (case IPv4_parse privateIp of
             Inl err \<Rightarrow> (Inl err, st1)
           | Inr ipOctets \<Rightarrow>
               (case pcpBuffer ipOctets intPort extPort lifetime' nonce1 of
                  Inl err \<Rightarrow> (Inr (Inl (Failure ''No PCP response'')), st1)
                | Inr buf \<Rightarrow>
                    (case router e (length (sent st1)) routerIp buf of
                       Some pcpResponse \<Rightarrow>
                         (Inr (Inr pcpResponse), st1\<lparr> sent := sent st1 @ [(routerIp, buf)] \<rparr>)
                     | None \<Rightarrow>
                         (Inr (Inl (Failure ''No PCP response'')),
                          st1\<lparr> sent := sent st1 @ [(routerIp, buf)] \<rparr>)))))"

section \<open>pcp.ts: addMapping\<close>

text \<open>
  The fan-out of \<open>_sendPcpRequests\<close>: for every router IP choose the private IP by
  longest prefix match and send; a rejected request becomes \<open>null\<close> (\<open>None\<close>).
  An exception in the callback of \<open>map\<close> ends the fan-out.  Each entry keeps its
  router IP, as \<open>routerIps[i]\<close> is read again with the response.
\<close>

type_synonym pcpReply = "string \<times> (ArrayBuffer \<times> string option) option"

fun sendAddRequests ::
  "env \<Rightarrow> string list \<Rightarrow> int \<Rightarrow> int \<Rightarrow> int \<Rightarrow> string option list \<Rightarrow> PortControl
     \<Rightarrow> (error + pcpReply list) \<times> PortControl" where
  "sendAddRequests e privateIps intPort extPort reqLifetime [] st = (Inr [], st)"
| "sendAddRequests e privateIps intPort extPort reqLifetime (routerIp # routerIps) st =
     (case longestPrefixMatch privateIps routerIp of
        Inl err \<Rightarrow> (Inl err, st)
      | Inr privateIp \<Rightarrow>
          (case routerIp of
             None \<Rightarrow> (Inl ParseError, st)
           | Some rip \<Rightarrow>
               (case sendPcpRequest e rip privateIp intPort extPort reqLifetime None st of
                  (Inl err, st1) \<Rightarrow> (Inl err, st1)
                | (Inr res, st1) \<Rightarrow>
                    (let v = (case res of Inl err \<Rightarrow> None
                                        | Inr pcpResponse \<Rightarrow> Some (pcpResponse, privateIp))
                     in case sendAddRequests e privateIps intPort extPort reqLifetime routerIps st1 of
                          (Inl err, st2) \<Rightarrow> (Inl err, st2)
                        | (Inr responses, st2) \<Rightarrow> (Inr ((rip, v) # responses), st2)))))"

text \<open>A number printed in decimal, and \<open>ipOctets.join('.')\<close>.\<close>

fun decimal :: "nat \<Rightarrow> string" where
  "decimal n =
     (if n < 10 then [char_of (48 + n)] else decimal (n div 10) @ [char_of (48 + n mod 10)])"

declare decimal.simps [simp del]

definition joinOctets :: "int \<Rightarrow> int \<Rightarrow> int \<Rightarrow> int \<Rightarrow> string" where
  "joinOctets a b c d =
     decimal (nat a) @ ''.'' @ decimal (nat b) @ ''.'' @ decimal (nat c) @ ''.'' @ decimal (nat d)"

text \<open>
  The body of the \<open>forEach\<close> callback for one response that is not \<open>null\<close>: the
  reads and the assignments in the order of the source.  A read outside the response
  throws; the assignments made before it stay.  The result code at offset 3 is not read.
\<close>

definition adopt :: "ArrayBuffer \<Rightarrow> string option \<Rightarrow> Mapping \<Rightarrow> error option \<times> Mapping" where
  "adopt pcpResponse privateIp mapping =
     (case getUint8 pcpResponse 56 of Inl err \<Rightarrow> (Some err, mapping) | Inr o0 \<Rightarrow>
      case getUint8 pcpResponse 57 of Inl err \<Rightarrow> (Some err, mapping) | Inr o1 \<Rightarrow>
      case getUint8 pcpResponse 58 of Inl err \<Rightarrow> (Some err, mapping) | Inr o2 \<Rightarrow>
      case getUint8 pcpResponse 59 of Inl err \<Rightarrow> (Some err, mapping) | Inr o3 \<Rightarrow>
      case getUint16 pcpResponse 42 of Inl err \<Rightarrow> (Some err, mapping) | Inr port \<Rightarrow>
      (let m1 = mapping\<lparr> externalPort := port, externalIp := Some (joinOctets o0 o1 o2 o3),
                          internalIp := privateIp \<rparr>
       in case getUint32 pcpResponse 4 of Inl err \<Rightarrow> (Some err, m1) | Inr granted \<Rightarrow>
       (let m2 = m1\<lparr> lifetime := Some granted \<rparr>
        in case getUint32 pcpResponse 24 of Inl err \<Rightarrow> (Some err, m2) | Inr n0 \<Rightarrow>
           case getUint32 pcpResponse 28 of Inl err \<Rightarrow> (Some err, m2) | Inr n1 \<Rightarrow>
           case getUint32 pcpResponse 32 of Inl err \<Rightarrow> (Some err, m2) | Inr n2 \<Rightarrow>
           (None, m2\<lparr> nonce := Some [n0, n1, n2] \<rparr>))))"

text \<open>
  \<open>responses.forEach\<close> over the whole wave: every response that is not \<open>null\<close>
  overwrites the fields of the one Mapping object and caches its router IP.  An
  exception ends the loop; \<open>.catch((err) => mapping)\<close> then hands back the object as
  it is.
\<close>

fun adoptResponses :: "pcpReply list \<Rightarrow> Mapping \<Rightarrow> string list \<Rightarrow> Mapping \<times> string list" where
  "adoptResponses [] mapping cache = (mapping, cache)"
| "adoptResponses ((routerIp, v) # responses) mapping cache =
     (case v of
        None \<Rightarrow> adoptResponses responses mapping cache
      | Some (pcpResponse, privateIp) \<Rightarrow>
          (case adopt pcpResponse privateIp mapping of
             (Some err, mapping1) \<Rightarrow> (mapping1, cache)
           | (None, mapping1) \<Rightarrow>
               adoptResponses responses mapping1
                 (if indexOf cache routerIp = -1 then cache @ [routerIp] else cache)))"

definition sendPcpRequests ::
  "env \<Rightarrow> int \<Rightarrow> int \<Rightarrow> int \<Rightarrow> string option list \<Rightarrow> Mapping \<Rightarrow> PortControl
     \<Rightarrow> Mapping \<times> PortControl" where
  "sendPcpRequests e intPort extPort reqLifetime routerIps mapping st =
     (case getPrivateIps e st of
        (Inl err, st1) \<Rightarrow> (mapping, st1)
      | (Inr privateIps, st1) \<Rightarrow>
          (case sendAddRequests e privateIps intPort extPort reqLifetime routerIps st1 of
             (Inl err, st2) \<Rightarrow> (mapping, st2)
           | (Inr responses, st2) \<Rightarrow>
               (let (mapping1, cache1) = adoptResponses responses mapping (routerIpCache st2)
                in (mapping1, st2\<lparr> routerIpCache := cache1 \<rparr>))))"

text \<open>The two waves of candidates, as computed in \<open>_sendPcpRequestsInWaves\<close>.\<close>

definition matchedRouterIps :: "string list \<Rightarrow> string option list \<Rightarrow> string option list" where
  "matchedRouterIps cache lanMatched = arrAdd (map Some cache) lanMatched"

definition otherRouterIps :: "string option list \<Rightarrow> string option list" where
  "otherRouterIps matched = arrDiff (map Some ROUTER_IPS) matched"

definition sendPcpRequestsInWaves ::
  "env \<Rightarrow> int \<Rightarrow> int \<Rightarrow> int \<Rightarrow> Mapping \<Rightarrow> PortControl \<Rightarrow> (error + Mapping) \<times> PortControl" where
  "sendPcpRequestsInWaves e intPort extPort reqLifetime mapping st =
     (case getPrivateIps e st of
        (Inl err, st1) \<Rightarrow> (Inl err, st1)
      | (Inr privateIps, st1) \<Rightarrow>
          (case filterRouterIps privateIps of
             Inl err \<Rightarrow> (Inl err, st1)
           | Inr lanMatched \<Rightarrow>
               (let matched = matchedRouterIps (routerIpCache st1) lanMatched;
                    other = otherRouterIps matched;
                    (mapping1, st2) = sendPcpRequests e intPort extPort reqLifetime matched mapping st1
                in if externalPort mapping1 \<noteq> -1 then (Inr mapping1, st2)
                   else (let (mapping2, st3) =
                               sendPcpRequests e intPort extPort reqLifetime other mapping1 st2
                         in (Inr mapping2, st3)))))"

text \<open>
  \<open>_saveAndRefreshMapping\<close>.  \<open>dLifetime\<close> is \<open>reqLifetime - mapping.lifetime\<close>;
  with an undefined lifetime it is NaN and \<open>dLifetime > 0\<close> is false.
\<close>

definition assign :: "int \<Rightarrow> Mapping \<Rightarrow> (int \<times> Mapping) list \<Rightarrow> (int \<times> Mapping) list" where
  "assign k v obj = (if k \<in> fst ` set obj then map (\<lambda>(k', v'). if k' = k then (k, v) else (k', v')) obj
                     else obj @ [(k, v)])"

definition saveAndRefreshMapping ::
  "int \<Rightarrow> int \<Rightarrow> int \<Rightarrow> Mapping \<Rightarrow> PortControl \<Rightarrow> Mapping \<times> PortControl" where
  "saveAndRefreshMapping intPort lifetime' reqLifetime mapping st =
     (let dPositive = (case lifetime mapping of None \<Rightarrow> False | Some granted \<Rightarrow> reqLifetime - granted > 0);
          dLifetime = reqLifetime - numberOr0 (lifetime mapping);
          (mapping1, st1) =
            (if externalPort mapping \<noteq> -1 \<and> dPositive then
               (let (tid, s) = setTimeout (Refresh intPort (externalPort mapping) dLifetime)
                                 (numberOr0 (lifetime mapping) * 1000) st
                in (mapping\<lparr> timeoutId := Some tid \<rparr>, s))
             else if externalPort mapping \<noteq> -1 \<and> lifetime' = 0 then
               (let (tid, s) = setTimeout (Refresh intPort (externalPort mapping) 0)
                                 (24 * 60 * 60 * 1000) st
                in (mapping\<lparr> timeoutId := Some tid \<rparr>, s))
             else if externalPort mapping \<noteq> -1 then
               (let (tid, s) = setTimeout (Evict (externalPort mapping))
                                 (numberOr0 (lifetime mapping) * 1000) st
                in (mapping, s))
             else (mapping, st))
      in if externalPort mapping1 \<noteq> -1 then
           (let mapping2 = mapping1\<lparr> deleter := Some (PcpDeleter (externalPort mapping1)) \<rparr>
            in (mapping2,
                st1\<lparr> activeMappings := assign (externalPort mapping2) mapping2 (activeMappings st1) \<rparr>))
         else (mapping1, st1))"

definition pcp_addMapping ::
  "env \<Rightarrow> int \<Rightarrow> int \<Rightarrow> int \<Rightarrow> PortControl \<Rightarrow> (error + Mapping) \<times> PortControl" where
  "pcp_addMapping e intPort extPort lifetime' st =
     (let mapping = new_Mapping\<lparr> internalPort := Some intPort, protocol := Some ''pcp'' \<rparr>;
          reqLifetime = (if lifetime' = 0 then 24 * 60 * 60 else lifetime')
      in case sendPcpRequestsInWaves e intPort extPort reqLifetime mapping st of
           (Inl err, st1) \<Rightarrow> (Inl err, st1)
         | (Inr mapping1, st1) \<Rightarrow>
             (let (mapping2, st2) = saveAndRefreshMapping intPort lifetime' reqLifetime mapping1 st1
              in (Inr mapping2, st2)))"

definition pcp_probeSupport :: "env \<Rightarrow> PortControl \<Rightarrow> (error + bool) \<times> PortControl" where
  "pcp_probeSupport e st =
     (case pcp_addMapping e PCP_PROBE_PORT PCP_PROBE_PORT 120 st of
        (Inl err, st1) \<Rightarrow> (Inl err, st1)
      | (Inr mapping, st1) \<Rightarrow> (Inr (externalPort mapping \<noteq> -1), st1))"

section \<open>pcp.ts: deleteMapping\<close>

text \<open>\<open>activeMappings[extPort]\<close> and \<open>delete activeMappings[extPort]\<close>.\<close>

definition lookup :: "(int \<times> Mapping) list \<Rightarrow> int \<Rightarrow> Mapping option" where
  "lookup obj k = map_of obj k"

definition delete_key :: "int \<Rightarrow> (int \<times> Mapping) list \<Rightarrow> (int \<times> Mapping) list" where
  "delete_key k obj = filter (\<lambda>kv. fst kv \<noteq> k) obj"

text \<open>
  The fan-out of \<open>_sendDeletionRequests\<close>: a MAP request with external port 0 and
  lifetime 0 that carries the nonce of the registered mapping.
\<close>

fun sendDeletionRequestsTo ::
  "env \<Rightarrow> string list \<Rightarrow> int \<Rightarrow> int list option \<Rightarrow> string option list \<Rightarrow> PortControl
     \<Rightarrow> (error + ArrayBuffer option list) \<times> PortControl" where
  "sendDeletionRequestsTo e privateIps intPort nonce' [] st = (Inr [], st)"
| "sendDeletionRequestsTo e privateIps intPort nonce' (routerIp # routerIps) st =
     (case longestPrefixMatch privateIps routerIp of
        Inl err \<Rightarrow> (Inl err, st)
      | Inr privateIp \<Rightarrow>
          (case routerIp of
             None \<Rightarrow> (Inl ParseError, st)
           | Some rip \<Rightarrow>
               (case sendPcpRequest e rip privateIp intPort 0 0 nonce' st of
                  (Inl err, st1) \<Rightarrow> (Inl err, st1)
                | (Inr res, st1) \<Rightarrow>
                    (let v = (case res of Inl err \<Rightarrow> None | Inr pcpResponse \<Rightarrow> Some pcpResponse)
                     in case sendDeletionRequestsTo e privateIps intPort nonce' routerIps st1 of
                          (Inl err, st2) \<Rightarrow> (Inl err, st2)
                        | (Inr responses, st2) \<Rightarrow> (Inr (v # responses), st2)))))"

text \<open>
  \<open>_sendDeletionRequests\<close>: reading \<open>activeMappings[extPort].internalPort\<close> throws
  a TypeError when the entry is missing.
\<close>

definition sendDeletionRequests ::
  "env \<Rightarrow> int \<Rightarrow> string option list \<Rightarrow> PortControl
     \<Rightarrow> (error + ArrayBuffer option list) \<times> PortControl" where
  "sendDeletionRequests e extPort routerIps st =
     (case getPrivateIps e st of
        (Inl err, st1) \<Rightarrow> (Inl err, st1)
      | (Inr privateIps, st1) \<Rightarrow>
          (case lookup (activeMappings st1) extPort of
             None \<Rightarrow> (Inl TypeError, st1)
           | Some entry \<Rightarrow>
               sendDeletionRequestsTo e privateIps (numberOr0 (internalPort entry)) (nonce entry)
                 routerIps st1))"

text \<open>
  The continuation of the first wave names its argument \<open>mapping\<close> and tests
  \<open>mapping.externalPort !== -1\<close>, but the argument is the array of responses: an
  array has no property \<open>externalPort\<close>, the read gives \<open>undefined\<close>.
\<close>

definition array_externalPort :: "ArrayBuffer option list \<Rightarrow> int option" where
  "array_externalPort responses = None"

definition sendDeletionRequestsInWaves ::
  "env \<Rightarrow> int \<Rightarrow> PortControl \<Rightarrow> (error + ArrayBuffer option list) \<times> PortControl" where
  "sendDeletionRequestsInWaves e extPort st =
     (case getPrivateIps e st of
        (Inl err, st1) \<Rightarrow> (Inl err, st1)
      | (Inr privateIps, st1) \<Rightarrow>
          (case filterRouterIps privateIps of
             Inl err \<Rightarrow> (Inl err, st1)
           | Inr lanMatched \<Rightarrow>
               (let matched = matchedRouterIps (routerIpCache st1) lanMatched;
                    other = otherRouterIps matched
                in case sendDeletionRequests e extPort matched st1 of
                     (Inl err, st2) \<Rightarrow> (Inl err, st2)
                   | (Inr responses, st2) \<Rightarrow>
                       if array_externalPort responses \<noteq> Some (-1) then (Inr responses, st2)
                       else sendDeletionRequests e extPort other st2)))"

text \<open>
  \<open>_deleteFromActiveMappings\<close>: the \<open>return true\<close> of the source is inside the
  \<open>forEach\<close> callback, so it only ends that call of the callback; the function itself
  returns \<open>false\<close> after the loop.  An exception leaves the loop.
\<close>

fun deleteEach :: "int \<Rightarrow> ArrayBuffer option list \<Rightarrow> PortControl \<Rightarrow> error option \<times> PortControl" where
  "deleteEach extPort [] st = (None, st)"
| "deleteEach extPort (v # responses) st =
     (case v of
        None \<Rightarrow> deleteEach extPort responses st
      | Some buf \<Rightarrow>
          (case getUint8 buf 3 of
             Inl err \<Rightarrow> (Some err, st)
           | Inr successCode \<Rightarrow>
               if successCode = 0 \<or> successCode = 8 then
                 (case lookup (activeMappings st) extPort of
                    None \<Rightarrow> (Some TypeError, st)
                  | Some entry \<Rightarrow>
                      (let st1 = clearTimeout (timeoutId entry) st;
                           st2 = st1\<lparr> activeMappings := delete_key extPort (activeMappings st1) \<rparr>
                       in deleteEach extPort responses st2))
               else deleteEach extPort responses st))"

definition deleteFromActiveMappings ::
  "int \<Rightarrow> ArrayBuffer option list \<Rightarrow> PortControl \<Rightarrow> (error + bool) \<times> PortControl" where
  "deleteFromActiveMappings extPort responses st =
     (case deleteEach extPort responses st of
        (Some err, st1) \<Rightarrow> (Inl err, st1)
      | (None, st1) \<Rightarrow> (Inr False, st1))"

text \<open>\<open>deleteMapping\<close>: the final \<open>.catch((err) => false)\<close> turns every rejection into \<open>false\<close>.\<close>

definition pcp_deleteMapping :: "env \<Rightarrow> int \<Rightarrow> PortControl \<Rightarrow> (error + bool) \<times> PortControl" where
  "pcp_deleteMapping e extPort st =
     (case sendDeletionRequestsInWaves e extPort st of
        (Inl err, st1) \<Rightarrow> (Inr False, st1)
      | (Inr responses, st1) \<Rightarrow>
          (case deleteFromActiveMappings extPort responses st1 of
             (Inl err, st2) \<Rightarrow> (Inr False, st2)
           | (Inr b, st2) \<Rightarrow> (Inr b, st2)))"

section \<open>The orchestrator: class PortControl\<close>

text \<open>
  The modules \<open>nat-pmp\<close> and \<open>upnp\<close> are imported by the orchestrator but are not
  among the sources, so their entry points are parameters: what
  \<open>natPmp.addMapping\<close>, \<open>upnp.addMapping\<close> (with its optional control URL) and a
  deleter of theirs do to the state and settle with.
\<close>

record modules =
  natPmp_addMapping :: "int \<Rightarrow> int \<Rightarrow> int \<Rightarrow> PortControl \<Rightarrow> (error + Mapping) \<times> PortControl"
  upnp_addMapping ::
    "int \<Rightarrow> int \<Rightarrow> int \<Rightarrow> string option \<Rightarrow> PortControl \<Rightarrow> (error + Mapping) \<times> PortControl"
  foreign_deleter :: "PortControl \<Rightarrow> (error + bool) \<times> PortControl"

definition failureMapping :: Mapping where
  "failureMapping = new_Mapping\<lparr> errInfo := Some ''No protocols are supported from last probe'' \<rparr>"

text \<open>
  \<open>PortControl.addMapping\<close>.  With an undefined \<open>protocolSupportCache.natPmp\<close> the
  chain is NAT-PMP, then PCP, then UPnP; a rejection anywhere in the chain is the
  rejection of the result, as no \<open>then\<close> has a rejection handler.  When the last
  probe found no protocol, the failure Mapping is returned as it is, not in a promise;
  the model does not tell the two apart.
\<close>

definition addMapping ::
  "env \<Rightarrow> modules \<Rightarrow> int \<Rightarrow> int \<Rightarrow> int \<Rightarrow> PortControl \<Rightarrow> (error + Mapping) \<times> PortControl" where
  "addMapping e ms intPort extPort lifetime' st =
     (case natPmp (protocolSupportCache st) of
        None \<Rightarrow>
          (case natPmp_addMapping ms intPort extPort lifetime' st of
             (Inl err, st1) \<Rightarrow> (Inl err, st1)
           | (Inr mapping, st1) \<Rightarrow>
               (case (if externalPort mapping \<noteq> -1 then (Inr mapping, st1)
                      else pcp_addMapping e intPort extPort lifetime' st1) of
                  (Inl err, st2) \<Rightarrow> (Inl err, st2)
                | (Inr mapping2, st2) \<Rightarrow>
                    if externalPort mapping2 \<noteq> -1 then (Inr mapping2, st2)
                    else upnp_addMapping ms intPort extPort lifetime' None st2))
      | Some pmpSupported \<Rightarrow>
          if pmpSupported then natPmp_addMapping ms intPort extPort lifetime' st
          else if pcp (protocolSupportCache st) = Some True then
            pcp_addMapping e intPort extPort lifetime' st
          else if upnp (protocolSupportCache st) = Some True then
            upnp_addMapping ms intPort extPort lifetime' (upnpControlUrl (protocolSupportCache st)) st
          else (Inr failureMapping, st))"

text \<open>
  \<open>PortControl.deleteMapping\<close>: \<open>Promise.resolve(false)\<close> for a port without an
  entry, otherwise the call of the entry's deleter.
\<close>

definition deleteMapping ::
  "env \<Rightarrow> modules \<Rightarrow> int \<Rightarrow> PortControl \<Rightarrow> (error + bool) \<times> PortControl" where
  "deleteMapping e ms extPort st =
     (case lookup (activeMappings st) extPort of
        None \<Rightarrow> (Inr False, st)
      | Some mapping \<Rightarrow>
          (case deleter mapping of
             None \<Rightarrow> (Inl TypeError, st)
           | Some (PcpDeleter port) \<Rightarrow> pcp_deleteMapping e port st
           | Some ForeignDeleter \<Rightarrow> foreign_deleter ms st))"

text \<open>
  \<open>PortControl.close\<close> calls \<open>this.activeMappings.forEach(...)\<close>.  The table is a
  plain object (\<open>{}\<close>): a property is an own key (an external port, as a string) or
  comes from \<open>Object.prototype\<close>, whose property names are listed.  Calling a value
  that is not a function throws a TypeError; thrown inside the executor of
  \<open>new Promise\<close>, it rejects the promise.
\<close>

definition Object_prototype :: "string list" where
  "Object_prototype = [''constructor'', ''__defineGetter__'', ''__defineSetter__'',
     ''hasOwnProperty'', ''__lookupGetter__'', ''__lookupSetter__'', ''isPrototypeOf'',
     ''propertyIsEnumerable'', ''toString'', ''valueOf'', ''__proto__'', ''toLocaleString'']"

datatype property = Undefined | OwnValue Mapping | Inherited string

definition keyString :: "int \<Rightarrow> string" where
  "keyString k = (if k < 0 then ''-'' @ decimal (nat (- k)) else decimal (nat k))"

definition get_property :: "(int \<times> Mapping) list \<Rightarrow> string \<Rightarrow> property" where
  "get_property obj name =
     (case find (\<lambda>kv. keyString (fst kv) = name) obj of
        Some kv \<Rightarrow> OwnValue (snd kv)
      | None \<Rightarrow> if name \<in> set Object_prototype then Inherited name else Undefined)"

text \<open>
  \<open>Promise.all(extPorts.map(_this.deleteMapping.bind(_this)))\<close>: the deletions are
  started in the order of \<open>extPorts\<close>; the result tells whether all of them fulfilled.
\<close>

fun deleteAll :: "env \<Rightarrow> modules \<Rightarrow> int list \<Rightarrow> PortControl \<Rightarrow> bool \<times> PortControl" where
  "deleteAll e ms [] st = (True, st)"
| "deleteAll e ms (extPort # extPorts) st =
     (case deleteMapping e ms extPort st of
        (r, st1) \<Rightarrow>
          (case deleteAll e ms extPorts st1 of
             (ok, st2) \<Rightarrow> ((case r of Inl err \<Rightarrow> False | Inr b \<Rightarrow> ok), st2)))"

text \<open>
  The result of \<open>close\<close> is \<open>None\<close> while the promise never settles: \<open>F\<close> is only
  called when \<open>Promise.all\<close> fulfils, and \<open>R\<close> is never called.  The first case is
  the iteration the callback is written for; it needs a property \<open>forEach\<close> that is a
  function.
\<close>

definition close :: "env \<Rightarrow> modules \<Rightarrow> PortControl \<Rightarrow> (error + unit) option \<times> PortControl" where
  "close e ms st =
     (case get_property (activeMappings st) ''forEach'' of
        Inherited f \<Rightarrow>
          (let extPorts = map fst (activeMappings st)
           in case deleteAll e ms extPorts st of
                (ok, st1) \<Rightarrow> (if ok then Some (Inr ()) else None, st1))
      | OwnValue v \<Rightarrow> (Some (Inl TypeError), st)
      | Undefined \<Rightarrow> (Some (Inl TypeError), st))"

section \<open>Scenarios with a fake router\<close>

text \<open>A fresh \<open>PortControl\<close> instance: empty tables, nothing probed, nothing pending.\<close>

definition new_PortControl :: PortControl where
  "new_PortControl = \<lparr> activeMappings = [], routerIpCache = [],
     protocolSupportCache = \<lparr> natPmp = None, pcp = None, upnp = None, upnpControlUrl = None \<rparr>,
     timers = [], nextTimerId = 0, sent = [], ipCalls = 0, randCalls = 0 \<rparr>"

text \<open>
  A MAP response of 60 bytes as a router sends it to a request: version 2, opcode
  \<open>0x81\<close>, the result code at offset 3, the granted lifetime at 4, the nonce, the
  protocol and the internal port of the request at 24, 36 and 40, the assigned external
  port at 42 and the external address 203.0.113.5, IPv4-mapped, at 44.
\<close>

definition fieldOr0 :: "error + int \<Rightarrow> int" where
  "fieldOr0 r = (case r of Inl err \<Rightarrow> 0 | Inr v \<Rightarrow> v)"

definition mapResponse :: "ArrayBuffer \<Rightarrow> int \<Rightarrow> int \<Rightarrow> int \<Rightarrow> ArrayBuffer" where
  "mapResponse request code port granted =
     (case createArrayBuffer 60
             [(8, 0, 2), (8, 1, 129), (8, 3, code), (32, 4, granted),
              (32, 24, fieldOr0 (getUint32 request 24)), (32, 28, fieldOr0 (getUint32 request 28)),
              (32, 32, fieldOr0 (getUint32 request 32)), (8, 36, fieldOr0 (getUint8 request 36)),
              (16, 40, fieldOr0 (getUint16 request 40)), (16, 42, port), (16, 54, 0xffff),
              (8, 56, 203), (8, 57, 0), (8, 58, 113), (8, 59, 5)] of
        Inl err \<Rightarrow> []
      | Inr buf \<Rightarrow> buf)"

text \<open>
  Modelled from the spec: the NAT-PMP and UPnP modules are not among the sources.  For
  the spec a protocol that gets no reply fails softly, and a failed add is a Mapping
  whose external port is -1.  These are modules that find no router: each add settles
  with such a Mapping and changes nothing; a deleter of theirs settles with \<open>false\<close>.
\<close>

definition silentModules :: modules where
  "silentModules = \<lparr>
     natPmp_addMapping = (\<lambda>intPort extPort lifetime' st.
        (Inr (new_Mapping\<lparr> internalPort := Some intPort, protocol := Some ''natPmp'' \<rparr>), st)),
     upnp_addMapping = (\<lambda>intPort extPort lifetime' controlUrl st.
        (Inr (new_Mapping\<lparr> internalPort := Some intPort, protocol := Some ''upnp'' \<rparr>), st)),
     foreign_deleter = (\<lambda>st. (Inr False, st)) \<rparr>"

text \<open>
  One host address 192.168.1.42 and one router at 192.168.1.1 that grants external
  port 4001 for 120 seconds, and answers every later datagram with result code 8.
  The random numbers are 1, 2, 3 and so on, so the nonce of the first request is
  1, 2, 3.
\<close>

definition homeNetwork :: env where
  "homeNetwork = \<lparr>
     hostIps = (\<lambda>n. [''192.168.1.42'']),
     random = (\<lambda>n. int n + 1),
     router = (\<lambda>n routerIp request.
        if routerIp = ''192.168.1.1''
        then Some (if n = 0 then mapResponse request 0 4001 120
                   else mapResponse request 8 4001 0)
        else None) \<rparr>"

text \<open>The state after \<open>pcp.addMapping(4000, 4001, 300)\<close> in that network.\<close>

definition afterAdd :: PortControl where
  "afterAdd = snd (pcp_addMapping homeNetwork 4000 4001 300 new_PortControl)"

text \<open>
  Two host addresses, 192.168.1.42 and 10.0.0.5, and two routers that both grant the
  mapping: 192.168.1.1 assigns port 4001 for 120 seconds, 10.0.0.2 assigns port 4002 for
  60 seconds.
\<close>

definition twoRouters :: env where
  "twoRouters = \<lparr>
     hostIps = (\<lambda>n. [''192.168.1.42'', ''10.0.0.5'']),
     random = (\<lambda>n. int n + 1),
     router = (\<lambda>n routerIp request.
        if routerIp = ''192.168.1.1'' then Some (mapResponse request 0 4001 120)
        else if routerIp = ''10.0.0.2'' then Some (mapResponse request 0 4002 60)
        else None) \<rparr>"

text \<open>A host on which the enumeration of local IPs finds nothing.\<close>

definition noLocalIp :: env where
  "noLocalIp = \<lparr> hostIps = (\<lambda>n. []), random = (\<lambda>n. 0), router = (\<lambda>n routerIp request. None) \<rparr>"

text \<open>
  One router at 192.168.1.1 that refuses the request: result code 2 (NOT_AUTHORIZED),
  lifetime 0, the requested port 4000 echoed.
\<close>

definition refusingRouter :: env where
  "refusingRouter = \<lparr>
     hostIps = (\<lambda>n. [''192.168.1.42'']),
     random = (\<lambda>n. int n + 1),
     router = (\<lambda>n routerIp request.
        if routerIp = ''192.168.1.1'' then Some (mapResponse request 2 4000 0) else None) \<rparr>"

text \<open>An environment whose routers put the result code \<open>code\<close> into every reply.\<close>

definition withResultCode :: "byte \<Rightarrow> env \<Rightarrow> env" where
  "withResultCode code e =
     e\<lparr> router := (\<lambda>n routerIp request.
            map_option (\<lambda>reply. reply[3 := code]) (router e n routerIp request)) \<rparr>"

text \<open>The replies of a wave with the result code of each replaced by \<open>code\<close>.\<close>

fun recodeReplies :: "byte \<Rightarrow> pcpReply list \<Rightarrow> pcpReply list" where
  "recodeReplies code [] = []"
| "recodeReplies code ((routerIp, v) # responses) =
     (routerIp, (case v of None \<Rightarrow> None | Some (reply, privateIp) \<Rightarrow> Some (reply[3 := code], privateIp)))
       # recodeReplies code responses"

text \<open>The Mapping that \<open>pcp.addMapping(4000, 4001, 300)\<close> returns in the home network.\<close>

definition addedMapping :: Mapping where
  "addedMapping = \<lparr> internalIp = Some ''192.168.1.42'', externalIp = Some ''203.0.113.5'',
     internalPort = Some 4000, externalPort = 4001, lifetime = Some 120,
     protocol = Some ''pcp'', timeoutId = Some 0, nonce = Some [1, 2, 3],
     deleter = Some (PcpDeleter 4001), errInfo = None \<rparr>"

text \<open>
  One host address 192.168.1.42; the only router that answers is at 10.0.0.138, which
  is not among the candidates of the first wave.
\<close>

definition farRouter :: env where
  "farRouter = \<lparr>
     hostIps = (\<lambda>n. [''192.168.1.42'']),
     random = (\<lambda>n. int n + 1),
     router = (\<lambda>n routerIp request.
        if routerIp = ''10.0.0.138'' then Some (mapResponse request 0 4000 120) else None) \<rparr>"

text \<open>
  The spec's words on \<open>longestPrefixMatch\<close>, for comparison with the source's
  function: for each list entry the length in bits, 0 to 31, of the high-order prefix
  it shares with the target; the result is the entry with the largest length, the first
  one on ties.
\<close>

definition spec_prefixLength :: "int list \<Rightarrow> int list \<Rightarrow> int" where
  "spec_prefixLength ip target =
     int (length (takeWhile (\<lambda>n. IPv4_match ip target n) [1..<32]))"

definition spec_longestPrefixMatch :: "string list \<Rightarrow> string \<Rightarrow> string option" where
  "spec_longestPrefixMatch ipList target =
     (case IPv4_parse (Some target) of
        Inl err \<Rightarrow> None
      | Inr t \<Rightarrow>
          (let lengths = map (\<lambda>v. case IPv4_parse (Some v) of
                                     Inl err \<Rightarrow> 0
                                   | Inr ip \<Rightarrow> spec_prefixLength ip t) ipList
           in case Math_max lengths of
                None \<Rightarrow> None
              | Some mx \<Rightarrow> at_index ipList (indexOf lengths mx)))"

text \<open>
  One host address 10.0.0.3; the router is at 10.0.0.2 and grants every request it
  receives.
\<close>

definition tenNetwork :: env where
  "tenNetwork = \<lparr>
     hostIps = (\<lambda>n. [''10.0.0.3'']),
     random = (\<lambda>n. int n + 1),
     router = (\<lambda>n routerIp request.
        if routerIp = ''10.0.0.2'' then Some (mapResponse request 0 4000 120) else None) \<rparr>"

section \<open>Properties of the byte-matrix codec\<close>

lemma uint_low_byte: "uint (ucast (w :: 'a::len word) :: byte) = uint w mod 256"
  by (simp add: unsigned_ucast_eq take_bit_eq_mod)

lemma uint_drop: "uint (drop_bit n (w :: 'a::len word)) = uint w div 2 ^ n"
proof -
  have "uint (drop_bit n w) = drop_bit n (uint w)"
    by (rule bit_eqI) (simp add: bit_unsigned_iff bit_drop_bit_eq)
  then show ?thesis by (simp only: drop_bit_eq_div)
qed

lemma horner_256:
  "v = q1 * 256 + r0 \<Longrightarrow> q1 = q2 * 256 + r1 \<Longrightarrow> q2 = q3 * 256 + r2 \<Longrightarrow>
   q3 * 16777216 + r2 * 65536 + r1 * 256 + r0 = (v::int)"
  by simp

lemma u32_arith:
  "v div 16777216 * 16777216 + v div 65536 mod 256 * 65536 + v div 256 mod 256 * 256
     + v mod 256 = (v::int)"
proof -
  have d: "v div 256 div 256 = v div 65536" "v div 65536 div 256 = v div 16777216"
    using zdiv_zmult2_eq[of 256 v 256] zdiv_zmult2_eq[of 256 v 65536] by simp_all
  have a: "v = (v div 256) * 256 + v mod 256" by simp
  have b: "v div 256 = (v div 65536) * 256 + v div 256 mod 256"
    using div_mult_mod_eq[of "v div 256" 256] unfolding d by simp
  have c: "v div 65536 = (v div 16777216) * 256 + v div 65536 mod 256"
    using div_mult_mod_eq[of "v div 65536" 256] unfolding d by simp
  show ?thesis by (rule horner_256[OF a b c])
qed

lemma u16_bytes:
  "0 \<le> v \<Longrightarrow> v < 65536 \<Longrightarrow>
   uint (ucast (drop_bit 8 (word_of_int v :: 16 word)) :: byte) * 256
     + uint (ucast (word_of_int v :: 16 word) :: byte) = v"
  by (simp add: uint_low_byte uint_drop uint_word_of_int take_bit_eq_mod)

lemma u32_bytes:
  "0 \<le> v \<Longrightarrow> v < 4294967296 \<Longrightarrow>
   uint (ucast (drop_bit 24 (word_of_int v :: 32 word)) :: byte) * 16777216
     + uint (ucast (drop_bit 16 (word_of_int v :: 32 word)) :: byte) * 65536
     + uint (ucast (drop_bit 8 (word_of_int v :: 32 word)) :: byte) * 256
     + uint (ucast (word_of_int v :: 32 word) :: byte) = v"
  by (simp add: uint_low_byte uint_drop uint_word_of_int take_bit_eq_mod u32_arith)

lemma setInt8_frame:
  "setInt8 buf off v = Inr b \<Longrightarrow>
     length b = length buf \<and> (\<not> covers (8, off, v) j \<longrightarrow> b ! j = buf ! j)"
  by (auto simp: setInt8_def in_range_def nth_list_update split: if_splits)

lemma setInt16_frame:
  "setInt16 buf off v = Inr b \<Longrightarrow>
     length b = length buf \<and> (\<not> covers (16, off, v) j \<longrightarrow> b ! j = buf ! j)"
  by (auto simp: setInt16_def in_range_def nth_list_update Let_def split: if_splits)

lemma setInt32_frame:
  "setInt32 buf off v = Inr b \<Longrightarrow>
     length b = length buf \<and> (\<not> covers (32, off, v) j \<longrightarrow> b ! j = buf ! j)"
  by (auto simp: setInt32_def in_range_def nth_list_update Let_def split: if_splits)

lemma writeRows_frame:
  "writeRows buf matrix = Inr b \<Longrightarrow>
     length b = length buf \<and> (\<not> written matrix j \<longrightarrow> b ! j = buf ! j)"
proof (induction buf matrix arbitrary: b rule: writeRows.induct)
  case (1 buf)
  then show ?case by simp
next
  case (2 buf bits off v matrix)
  have w: "written ((bits, off, v) # matrix) j = (covers (bits, off, v) j \<or> written matrix j)"
    by (simp add: written_def)
  consider (b8) "bits = 8" | (b16) "bits = 16" | (b32) "bits = 32"
    | (other) "bits \<noteq> 8" "bits \<noteq> 16" "bits \<noteq> 32" by blast
  then show ?case
  proof cases
    case b8
    then obtain b1 where s: "setInt8 buf off v = Inr b1" and r: "writeRows b1 matrix = Inr b"
      using "2.prems" by (auto split: sum.splits)
    from "2.IH"(1)[OF b8 s r] setInt8_frame[OF s, of j] b8 show ?thesis
      unfolding w by auto
  next
    case b16
    then obtain b1 where s: "setInt16 buf off v = Inr b1" and r: "writeRows b1 matrix = Inr b"
      using "2.prems" by (auto split: sum.splits)
    have n8: "bits \<noteq> 8" using b16 by simp
    from "2.IH"(2)[OF n8 b16 s r] setInt16_frame[OF s, of j] b16 show ?thesis
      unfolding w by auto
  next
    case b32
    then obtain b1 where s: "setInt32 buf off v = Inr b1" and r: "writeRows b1 matrix = Inr b"
      using "2.prems" by (auto split: sum.splits)
    have n8: "bits \<noteq> 8" and n16: "bits \<noteq> 16" using b32 by simp_all
    from "2.IH"(3)[OF n8 n16 b32 s r] setInt32_frame[OF s, of j] b32 show ?thesis
      unfolding w by auto
  next
    case other
    then have r: "writeRows buf matrix = Inr b" using "2.prems" by simp
    from "2.IH"(4)[OF other r] other show ?thesis unfolding w by auto
  qed
qed

lemma createArrayBuffer_zero:
  "createArrayBuffer n matrix = Inr b \<Longrightarrow> length b = n \<and> (\<forall>j<n. \<not> written matrix j \<longrightarrow> b ! j = 0)"
  unfolding createArrayBuffer_def new_ArrayBuffer_def
  using writeRows_frame[of "replicate n 0" matrix b]
  by auto


lemma pcpBuffer_writes:
  "\<exists>buf. pcpBuffer ipOctets intPort extPort lifetime' nonce' = Inr buf
     \<and> buf ! 4 = ucast (drop_bit 24 (word_of_int lifetime' :: 32 word))
     \<and> buf ! 5 = ucast (drop_bit 16 (word_of_int lifetime' :: 32 word))
     \<and> buf ! 6 = ucast (drop_bit 8 (word_of_int lifetime' :: 32 word))
     \<and> buf ! 7 = ucast (word_of_int lifetime' :: 32 word)
     \<and> buf ! 24 = ucast (drop_bit 24 (word_of_int (elem nonce' 0) :: 32 word))
     \<and> buf ! 25 = ucast (drop_bit 16 (word_of_int (elem nonce' 0) :: 32 word))
     \<and> buf ! 26 = ucast (drop_bit 8 (word_of_int (elem nonce' 0) :: 32 word))
     \<and> buf ! 27 = ucast (word_of_int (elem nonce' 0) :: 32 word)
     \<and> buf ! 28 = ucast (drop_bit 24 (word_of_int (elem nonce' 1) :: 32 word))
     \<and> buf ! 29 = ucast (drop_bit 16 (word_of_int (elem nonce' 1) :: 32 word))
     \<and> buf ! 30 = ucast (drop_bit 8 (word_of_int (elem nonce' 1) :: 32 word))
     \<and> buf ! 31 = ucast (word_of_int (elem nonce' 1) :: 32 word)
     \<and> buf ! 32 = ucast (drop_bit 24 (word_of_int (elem nonce' 2) :: 32 word))
     \<and> buf ! 33 = ucast (drop_bit 16 (word_of_int (elem nonce' 2) :: 32 word))
     \<and> buf ! 34 = ucast (drop_bit 8 (word_of_int (elem nonce' 2) :: 32 word))
     \<and> buf ! 35 = ucast (word_of_int (elem nonce' 2) :: 32 word)
     \<and> buf ! 40 = ucast (drop_bit 8 (word_of_int intPort :: 16 word))
     \<and> buf ! 41 = ucast (word_of_int intPort :: 16 word)
     \<and> buf ! 42 = ucast (drop_bit 8 (word_of_int extPort :: 16 word))
     \<and> buf ! 43 = ucast (word_of_int extPort :: 16 word)"
  by (simp add: pcpBuffer_def pcpMatrix_def createArrayBuffer_def new_ArrayBuffer_def
        setInt8_def setInt16_def setInt32_def in_range_def Let_def nth_list_update
      )


lemma covers_iff:
  "covers (8, off, v) j = (int j = off)"
  "covers (16, off, v) j = (int j = off \<or> int j = off + 1)"
  "covers (32, off, v) j = (int j = off \<or> int j = off + 1 \<or> int j = off + 2 \<or> int j = off + 3)"
  by auto

lemma pcpMatrix_unwritten:
  assumes "(8 \<le> j \<and> j \<le> 17) \<or> (37 \<le> j \<and> j \<le> 39) \<or> (44 \<le> j \<and> j \<le> 53) \<or> 56 \<le> j"
  shows "\<not> written (pcpMatrix ipOctets intPort extPort lifetime' nonce') j"
  unfolding written_def pcpMatrix_def list_ex_Cons_iff list_ex_Nil_iff covers_iff
  using assms by auto

text \<open>
  Claim C9.  For internal and external ports in 0..65535, a lifetime in 0..2^32-1 and a
  nonce of three 32-bit words, the MAP request that \<open>sendPcpRequest\<close> encodes is a
  buffer of 60 bytes; the big-endian u16 at offsets 40 and 42 are the internal and
  external port, the u32 at offset 4 is the lifetime, the u32 at offsets 24, 28 and 32
  are the nonce words, and every byte at an offset that no row of the matrix writes is 0.
\<close>

theorem pcp_request_roundtrip:
  assumes ip: "0 \<le> intPort" "intPort \<le> 65535"
    and ep: "0 \<le> extPort" "extPort \<le> 65535"
    and lt: "0 \<le> lifetime'" "lifetime' \<le> 4294967295"
    and n0: "0 \<le> n0" "n0 \<le> 4294967295"
    and n1: "0 \<le> n1" "n1 \<le> 4294967295"
    and n2: "0 \<le> n2" "n2 \<le> 4294967295"
  shows "\<exists>buf. pcpBuffer ipOctets intPort extPort lifetime' [n0, n1, n2] = Inr buf
           \<and> length buf = 60
           \<and> getUint16 buf 40 = Inr intPort
           \<and> getUint16 buf 42 = Inr extPort
           \<and> getUint32 buf 4 = Inr lifetime'
           \<and> getUint32 buf 24 = Inr n0
           \<and> getUint32 buf 28 = Inr n1
           \<and> getUint32 buf 32 = Inr n2
           \<and> (\<forall>j<60. \<not> written (pcpMatrix ipOctets intPort extPort lifetime' [n0, n1, n2]) j
                  \<longrightarrow> buf ! j = 0)
           \<and> (\<forall>j<60. (8 \<le> j \<and> j \<le> 17) \<or> (37 \<le> j \<and> j \<le> 39) \<or> (44 \<le> j \<and> j \<le> 53) \<or> 56 \<le> j
                  \<longrightarrow> buf ! j = 0)"
proof -
  obtain buf where b: "pcpBuffer ipOctets intPort extPort lifetime' [n0, n1, n2] = Inr buf"
    and bytes:
      "buf ! 4 = ucast (drop_bit 24 (word_of_int lifetime' :: 32 word))"
      "buf ! 5 = ucast (drop_bit 16 (word_of_int lifetime' :: 32 word))"
      "buf ! 6 = ucast (drop_bit 8 (word_of_int lifetime' :: 32 word))"
      "buf ! 7 = ucast (word_of_int lifetime' :: 32 word)"
      "buf ! 24 = ucast (drop_bit 24 (word_of_int (elem [n0, n1, n2] 0) :: 32 word))"
      "buf ! 25 = ucast (drop_bit 16 (word_of_int (elem [n0, n1, n2] 0) :: 32 word))"
      "buf ! 26 = ucast (drop_bit 8 (word_of_int (elem [n0, n1, n2] 0) :: 32 word))"
      "buf ! 27 = ucast (word_of_int (elem [n0, n1, n2] 0) :: 32 word)"
      "buf ! 28 = ucast (drop_bit 24 (word_of_int (elem [n0, n1, n2] 1) :: 32 word))"
      "buf ! 29 = ucast (drop_bit 16 (word_of_int (elem [n0, n1, n2] 1) :: 32 word))"
      "buf ! 30 = ucast (drop_bit 8 (word_of_int (elem [n0, n1, n2] 1) :: 32 word))"
      "buf ! 31 = ucast (word_of_int (elem [n0, n1, n2] 1) :: 32 word)"
      "buf ! 32 = ucast (drop_bit 24 (word_of_int (elem [n0, n1, n2] 2) :: 32 word))"
      "buf ! 33 = ucast (drop_bit 16 (word_of_int (elem [n0, n1, n2] 2) :: 32 word))"
      "buf ! 34 = ucast (drop_bit 8 (word_of_int (elem [n0, n1, n2] 2) :: 32 word))"
      "buf ! 35 = ucast (word_of_int (elem [n0, n1, n2] 2) :: 32 word)"
      "buf ! 40 = ucast (drop_bit 8 (word_of_int intPort :: 16 word))"
      "buf ! 41 = ucast (word_of_int intPort :: 16 word)"
      "buf ! 42 = ucast (drop_bit 8 (word_of_int extPort :: 16 word))"
      "buf ! 43 = ucast (word_of_int extPort :: 16 word)"
    using pcpBuffer_writes[of ipOctets intPort extPort lifetime' "[n0, n1, n2]"] by blast
  have el: "elem [n0, n1, n2] 0 = n0" "elem [n0, n1, n2] 1 = n1" "elem [n0, n1, n2] 2 = n2"
    by (simp_all add: elem_def)
  note bytes = bytes[unfolded el]
  from b have z: "length buf = 60"
    "\<forall>j<60. \<not> written (pcpMatrix ipOctets intPort extPort lifetime' [n0, n1, n2]) j \<longrightarrow> buf ! j = 0"
    using createArrayBuffer_zero[of 60 "pcpMatrix ipOctets intPort extPort lifetime' [n0, n1, n2]" buf]
    by (simp_all add: pcpBuffer_def)
  have i: "getUint16 buf 40 = Inr intPort"
    using u16_bytes[of intPort] ip by (simp add: getUint16_def in_range_def z(1) bytes)
  have e: "getUint16 buf 42 = Inr extPort"
    using u16_bytes[of extPort] ep by (simp add: getUint16_def in_range_def z(1) bytes)
  have l: "getUint32 buf 4 = Inr lifetime'"
    using u32_bytes[of lifetime'] lt by (simp add: getUint32_def in_range_def z(1) bytes)
  have a0: "getUint32 buf 24 = Inr n0"
    using u32_bytes[of n0] n0 by (simp add: getUint32_def in_range_def z(1) bytes)
  have a1: "getUint32 buf 28 = Inr n1"
    using u32_bytes[of n1] n1 by (simp add: getUint32_def in_range_def z(1) bytes)
  have a2: "getUint32 buf 32 = Inr n2"
    using u32_bytes[of n2] n2 by (simp add: getUint32_def in_range_def z(1) bytes)
  have z2: "\<forall>j<60. (8 \<le> j \<and> j \<le> 17) \<or> (37 \<le> j \<and> j \<le> 39) \<or> (44 \<le> j \<and> j \<le> 53) \<or> 56 \<le> j
                  \<longrightarrow> buf ! j = 0"
    using z(2) pcpMatrix_unwritten[of _ ipOctets intPort extPort lifetime' "[n0, n1, n2]"] by blast
  show ?thesis by (intro exI[of _ buf] conjI b z i e l a0 a1 a2 z2)
qed

theorem pcp_request_roundtrip_witness:
  "\<exists>buf. pcpBuffer [192, 168, 1, 42] 4000 4001 7200 [1, 2, 3] = Inr buf
           \<and> length buf = 60
           \<and> getUint16 buf 40 = Inr 4000
           \<and> getUint16 buf 42 = Inr 4001
           \<and> getUint32 buf 4 = Inr 7200
           \<and> getUint32 buf 24 = Inr 1
           \<and> getUint32 buf 28 = Inr 2
           \<and> getUint32 buf 32 = Inr 3
           \<and> buf ! 8 = 0 \<and> buf ! 37 = 0 \<and> buf ! 44 = 0 \<and> buf ! 59 = 0"
proof -
  have "\<exists>buf. pcpBuffer [192, 168, 1, 42] 4000 4001 7200 [1, 2, 3] = Inr buf
           \<and> length buf = 60
           \<and> getUint16 buf 40 = Inr 4000
           \<and> getUint16 buf 42 = Inr 4001
           \<and> getUint32 buf 4 = Inr 7200
           \<and> getUint32 buf 24 = Inr 1
           \<and> getUint32 buf 28 = Inr 2
           \<and> getUint32 buf 32 = Inr 3
           \<and> (\<forall>j<60. \<not> written (pcpMatrix [192, 168, 1, 42] 4000 4001 7200 [1, 2, 3]) j
                  \<longrightarrow> buf ! j = 0)
           \<and> (\<forall>j<60. (8 \<le> j \<and> j \<le> 17) \<or> (37 \<le> j \<and> j \<le> 39) \<or> (44 \<le> j \<and> j \<le> 53) \<or> 56 \<le> j
                  \<longrightarrow> buf ! j = 0)"
    by (rule pcp_request_roundtrip) simp_all
  then obtain buf where b: "pcpBuffer [192, 168, 1, 42] 4000 4001 7200 [1, 2, 3] = Inr buf"
      "length buf = 60" "getUint16 buf 40 = Inr 4000" "getUint16 buf 42 = Inr 4001"
      "getUint32 buf 4 = Inr 7200" "getUint32 buf 24 = Inr 1" "getUint32 buf 28 = Inr 2"
      "getUint32 buf 32 = Inr 3"
    and z: "\<forall>j<60. (8 \<le> j \<and> j \<le> 17) \<or> (37 \<le> j \<and> j \<le> 39) \<or> (44 \<le> j \<and> j \<le> 53) \<or> 56 \<le> j
                  \<longrightarrow> buf ! j = 0"
    by (elim exE conjE)
  have z8: "buf ! 8 = 0" using z[rule_format, of 8] by simp
  have z37: "buf ! 37 = 0" using z[rule_format, of 37] by simp
  have z44: "buf ! 44 = 0" using z[rule_format, of 44] by simp
  have z59: "buf ! 59 = 0" using z[rule_format, of 59] by simp
  show ?thesis by (intro exI[of _ buf] conjI b z8 z37 z44 z59)
qed

section \<open>Properties of the orchestrator's deleteMapping and close\<close>

text \<open>
  Claim C10.  \<open>PortControl.deleteMapping\<close> for an external port without an entry in
  the registry resolves to \<open>false\<close> and changes nothing: the tables, the caches, the
  pending timers and the log of datagrams sent are those from before the call.
\<close>

theorem deleteMapping_absent:
  "lookup (activeMappings st) extPort = None \<Longrightarrow>
     deleteMapping e ms extPort st = (Inr False, st)"
  by (simp add: deleteMapping_def)

theorem deleteMapping_absent_witness:
  "lookup (activeMappings afterAdd) 4000 = None
   \<and> deleteMapping homeNetwork silentModules 4000 afterAdd = (Inr False, afterAdd)"
proof -
  have a: "lookup (activeMappings afterAdd) 4000 = None" by code_simp
  from deleteMapping_absent[OF a] a show ?thesis by blast
qed

text \<open>Whatever the routers reply, \<open>pcp.deleteMapping\<close> resolves to \<open>false\<close>.\<close>

lemma pcp_deleteMapping_false: "fst (pcp_deleteMapping e extPort st) = Inr False"
  by (auto simp: pcp_deleteMapping_def deleteFromActiveMappings_def
           split: prod.splits sum.splits option.splits)

text \<open>
  Claim C1, evaluated.  The registry holds the PCP mapping of external port 4001 and
  the router answers the deletion request with result code 8.  The request goes to
  192.168.1.1 with lifetime 0, external port 0 and the nonce 1, 2, 3 of the mapping,
  the timer is cleared and the entry is removed, but \<open>deleteMapping(4001)\<close> resolves
  to \<open>false\<close>, where the claim says \<open>true\<close>.
\<close>

theorem deleteMapping_code_8_resolves_false:
  "lookup (activeMappings afterAdd) 4001 = Some addedMapping
   \<and> timers afterAdd \<noteq> []
   \<and> (case deleteMapping homeNetwork silentModules 4001 afterAdd of
        (r, st') \<Rightarrow>
          r = Inr False \<and> lookup (activeMappings st') 4001 = None \<and> timers st' = []
          \<and> (case last (sent st') of
                (routerIp, request) \<Rightarrow>
                  routerIp = ''192.168.1.1'' \<and> getUint32 request 4 = Inr 0
                  \<and> getUint16 request 42 = Inr 0
                  \<and> getUint32 request 24 = Inr 1 \<and> getUint32 request 28 = Inr 2
                  \<and> getUint32 request 32 = Inr 3
                  \<and> getUint8 (mapResponse request 8 4001 0) 3 = Inr 8))"
  by code_simp

text \<open>
  An expiry timer is not cancelled either: with the granted lifetime equal to the
  requested one, \<open>_saveAndRefreshMapping\<close> does not keep the id of the timer it arms,
  and it is still pending after the deletion.
\<close>

lemma deleteMapping_keeps_expiry_timer:
  "(case pcp_addMapping homeNetwork 4000 4001 120 new_PortControl of
      (r, st1) \<Rightarrow>
        timers st1 = [\<lparr> timer_id = 0, delay = 120000, action = Evict 4001 \<rparr>]
        \<and> (case deleteMapping homeNetwork silentModules 4001 st1 of
             (r2, st2) \<Rightarrow>
               r2 = Inr False \<and> lookup (activeMappings st2) 4001 = None
               \<and> timers st2 = [\<lparr> timer_id = 0, delay = 120000, action = Evict 4001 \<rparr>]))"
  by code_simp

text \<open>The decimal form of a key never spells \<open>forEach\<close>.\<close>

lemma decimal_no_f: "CHR ''f'' \<notin> set (decimal n)"
proof (induction n rule: decimal.induct)
  case (1 n)
  have d: "char_of (48 + k) \<noteq> CHR ''f''" if k: "k < 10" for k :: nat
  proof
    assume eq: "char_of (48 + k) = CHR ''f''"
    from eq have "of_char (char_of (48 + k)) = (of_char (CHR ''f'') :: nat)" by simp
    with k show False by (simp add: of_char_of)
  qed
  show ?case
  proof (cases "n < 10")
    case True
    then show ?thesis using d[of n] by (subst decimal.simps) simp
  next
    case False
    have "n mod 10 < 10" by simp
    then show ?thesis using False 1 d[of "n mod 10"] by (subst decimal.simps) simp
  qed
qed

lemma keyString_not_forEach: "keyString k \<noteq> ''forEach''"
proof
  assume eq: "keyString k = ''forEach''"
  show False
  proof (cases "k < 0")
    case True
    with eq show False by (simp add: keyString_def)
  next
    case False
    with eq have "decimal (nat k) = ''forEach''" by (simp add: keyString_def)
    then have "CHR ''f'' \<in> set (decimal (nat k))" by simp
    then show False using decimal_no_f by blast
  qed
qed

lemma get_property_forEach: "get_property obj ''forEach'' = Undefined"
proof -
  have "find (\<lambda>kv. keyString (fst kv) = ''forEach'') obj = None"
    by (simp add: find_None_iff keyString_not_forEach)
  then show ?thesis by (simp add: get_property_def Object_prototype_def)
qed

text \<open>
  Claim C2, evaluated.  For every registry, \<open>close()\<close> ends in the TypeError of
  calling the missing \<open>forEach\<close>: the promise rejects, no key is collected, no
  \<open>deleteMapping\<close> is called and the state is the one from before the call, where the
  claim says that every registered port is deleted and the promise resolves.
\<close>

theorem close_rejects: "close e ms st = (Some (Inl TypeError), st)"
  by (simp add: close_def get_property_forEach)

section \<open>Properties of longestPrefixMatch\<close>

text \<open>
  Claim C3, evaluated.  An entry that shares 31 or 32 leading bits with the target
  pushes no prefix length, so the indices of \<open>prefixMatches\<close> and of the list no longer
  agree.  With the list 10.0.0.1, 192.168.1.1 and the target 192.168.1.1 the result is
  10.0.0.1, though the target is in the list; with the list 10.0.0.3 and the target
  10.0.0.2 the result is \<open>undefined\<close>, not a member of the list.
\<close>

theorem longestPrefixMatch_misses_closest_entry:
  "longestPrefixMatch [''10.0.0.1'', ''192.168.1.1''] (Some ''192.168.1.1'')
     = Inr (Some ''10.0.0.1'')
   \<and> longestPrefixMatch [''10.0.0.3''] (Some ''10.0.0.2'') = Inr None"
  by code_simp

section \<open>Properties of pcp.addMapping\<close>

text \<open>
  Claim C4, evaluated.  The first wave is 192.168.1.1, 10.0.0.2 and both routers reply
  with result code 0.  The Mapping carries the fields of the last reply (external port
  4002, lifetime 60, internal IP 10.0.0.5), not those of the first, and both router
  IPs are appended to the cache, where the claim says the first reply and its router
  only.
\<close>

theorem addMapping_adopts_last_reply:
  "filterRouterIps [''192.168.1.42'', ''10.0.0.5''] = Inr [Some ''192.168.1.1'', Some ''10.0.0.2'']
   \<and> (case pcp_addMapping twoRouters 4000 4000 300 new_PortControl of
        (Inr m, st') \<Rightarrow>
          externalPort m = 4002 \<and> lifetime m = Some 60 \<and> internalIp m = Some ''10.0.0.5''
          \<and> routerIpCache st' = [''192.168.1.1'', ''10.0.0.2'']
          \<and> map fst (sent st') = [''192.168.1.1'', ''10.0.0.2'']
      | (Inl err, st') \<Rightarrow> False)"
  by code_simp

text \<open>
  Claim C5, evaluated.  Nothing is known about protocol support, NAT-PMP settles with
  a Mapping whose external port is -1, and the enumeration of local IPs finds nothing.
  \<open>pcp.addMapping\<close> rejects, as \<open>_sendPcpRequestsInWaves\<close> has no handler for the
  rejection of \<open>getPrivateIps\<close>, and the promise of \<open>PortControl.addMapping\<close>
  rejects with it, where the claim says it resolves to a Mapping with external port -1.
\<close>

theorem addMapping_rejects_without_local_ip:
  "fst (addMapping noLocalIp silentModules 4000 4000 7200 new_PortControl)
     = Inl (Failure ''getPrivateIps() failed'')"
  by code_simp

text \<open>
  The same for every environment and every NAT-PMP module: a rejection of NAT-PMP, or
  of the enumeration of local IPs once NAT-PMP has settled with external port -1, is
  the rejection of \<open>PortControl.addMapping\<close>.
\<close>

lemma addMapping_rejects_with_pmp:
  assumes "natPmp (protocolSupportCache st) = None"
    and "natPmp_addMapping ms intPort extPort lifetime' st = (Inl err, st1)"
  shows "addMapping e ms intPort extPort lifetime' st = (Inl err, st1)"
  using assms by (simp add: addMapping_def)

lemma pcp_addMapping_rejects:
  assumes "hostIps e (ipCalls st) = []"
  shows "pcp_addMapping e intPort extPort lifetime' st
           = (Inl (Failure ''getPrivateIps() failed''), st\<lparr> ipCalls := ipCalls st + 1 \<rparr>)"
  using assms
  by (simp add: pcp_addMapping_def sendPcpRequestsInWaves_def getPrivateIps_def)

lemma addMapping_rejects_with_pcp:
  assumes "natPmp (protocolSupportCache st) = None"
    and "natPmp_addMapping ms intPort extPort lifetime' st = (Inr m, st1)"
    and "externalPort m = -1"
    and "hostIps e (ipCalls st1) = []"
  shows "addMapping e ms intPort extPort lifetime' st
           = (Inl (Failure ''getPrivateIps() failed''), st1\<lparr> ipCalls := ipCalls st1 + 1 \<rparr>)"
  using assms by (simp add: addMapping_def pcp_addMapping_rejects)


text \<open>
  What the steps of \<open>addMapping\<close> leave alone: the timers and the registry until
  \<open>_saveAndRefreshMapping\<close> runs; datagrams are only appended to the log, and only
  for router IPs of the wave at hand.
\<close>

lemma getPrivateIps_frame:
  "getPrivateIps e st = (r, st') \<Longrightarrow>
     timers st' = timers st \<and> nextTimerId st' = nextTimerId st
     \<and> routerIpCache st' = routerIpCache st \<and> activeMappings st' = activeMappings st
     \<and> sent st' = sent st"
  by (auto simp: getPrivateIps_def Let_def split: if_splits)

lemma pickNonce_frame:
  "pickNonce e nonce' st = (n, st') \<Longrightarrow>
     timers st' = timers st \<and> nextTimerId st' = nextTimerId st
     \<and> routerIpCache st' = routerIpCache st \<and> activeMappings st' = activeMappings st
     \<and> sent st' = sent st"
  by (cases nonce') (auto simp: pickNonce_def randInt32_def Let_def)

lemma sendPcpRequest_frame:
  assumes "sendPcpRequest e rip privateIp intPort extPort lt nonce' st = (r, st')"
  shows "timers st' = timers st \<and> nextTimerId st' = nextTimerId st
     \<and> routerIpCache st' = routerIpCache st \<and> activeMappings st' = activeMappings st
     \<and> (\<exists>new. sent st' = sent st @ new \<and> fst ` set new \<subseteq> {rip})"
proof -
  obtain nonce1 st1 where n: "pickNonce e nonce' st = (nonce1, st1)"
    by (cases "pickNonce e nonce' st") 
  note f1 = pickNonce_frame[OF n]
  from assms n f1 show ?thesis
    unfolding sendPcpRequest_def
    by (auto split: sum.splits option.splits)
qed

lemma sendAddRequests_frame:
  "sendAddRequests e privateIps intPort extPort lt routerIps st = (r, st') \<Longrightarrow>
     timers st' = timers st \<and> nextTimerId st' = nextTimerId st
     \<and> routerIpCache st' = routerIpCache st \<and> activeMappings st' = activeMappings st
     \<and> (\<exists>new. sent st' = sent st @ new \<and> Some ` fst ` set new \<subseteq> set routerIps)"
proof (induction routerIps arbitrary: st r st')
  case Nil
  then show ?case by simp
next
  case (Cons routerIp routerIps)
  show ?case
  proof (cases "longestPrefixMatch privateIps routerIp")
    case (Inl err)
    with Cons.prems show ?thesis by simp
  next
    case (Inr privateIp)
    show ?thesis
    proof (cases routerIp)
      case None
      with Cons.prems Inr show ?thesis by simp
    next
      case (Some rip)
      obtain q st1 where s: "sendPcpRequest e rip privateIp intPort extPort lt None st = (q, st1)"
        by (cases "sendPcpRequest e rip privateIp intPort extPort lt None st")
      note f1 = sendPcpRequest_frame[OF s]
      then obtain new1 where n1: "sent st1 = sent st @ new1" "fst ` set new1 \<subseteq> {rip}" by blast
      show ?thesis
      proof (cases q)
        case (Inl err)
        with Cons.prems Inr Some s have "st' = st1" by simp
        with f1 n1 Some show ?thesis by auto
      next
        case (Inr res)
        obtain q2 st2 where t: "sendAddRequests e privateIps intPort extPort lt routerIps st1 = (q2, st2)"
          by (cases "sendAddRequests e privateIps intPort extPort lt routerIps st1")
        note f2 = Cons.IH[OF t]
        then obtain new2 where n2: "sent st2 = sent st1 @ new2" "Some ` fst ` set new2 \<subseteq> set routerIps"
          by blast
        have "st' = st2" using Cons.prems \<open>longestPrefixMatch privateIps routerIp = Inr privateIp\<close> Some s Inr t
          by (auto split: sum.splits)
        moreover have "sent st2 = sent st @ (new1 @ new2)" using n1 n2 by simp
        moreover have "Some ` fst ` set (new1 @ new2) \<subseteq> set (routerIp # routerIps)"
          using n1(2) n2(2) Some by (auto simp: image_subset_iff)
        ultimately show ?thesis using f1 f2 by (metis)
      qed
    qed
  qed
qed


lemma sendPcpRequests_frame:
  assumes "sendPcpRequests e intPort extPort lt routerIps m st = (m1, st')"
  shows "timers st' = timers st \<and> nextTimerId st' = nextTimerId st
     \<and> activeMappings st' = activeMappings st
     \<and> (\<exists>new. sent st' = sent st @ new \<and> Some ` fst ` set new \<subseteq> set routerIps)"
proof -
  obtain q st1 where g: "getPrivateIps e st = (q, st1)" by (cases "getPrivateIps e st")
  note f1 = getPrivateIps_frame[OF g]
  show ?thesis
  proof (cases q)
    case (Inl err)
    with assms g have "st' = st1" by (simp add: sendPcpRequests_def)
    with f1 show ?thesis by simp
  next
    case (Inr privateIps)
    obtain q2 st2 where t: "sendAddRequests e privateIps intPort extPort lt routerIps st1 = (q2, st2)"
      by (cases "sendAddRequests e privateIps intPort extPort lt routerIps st1")
    note f2 = sendAddRequests_frame[OF t]
    have "timers st' = timers st2 \<and> nextTimerId st' = nextTimerId st2
       \<and> activeMappings st' = activeMappings st2 \<and> sent st' = sent st2"
      using assms g Inr t
      by (auto simp: sendPcpRequests_def split: sum.splits prod.splits)
    with f1 f2 show ?thesis by simp
  qed
qed






section \<open>Properties of the candidate waves\<close>

text \<open>\<open>arrAdd\<close> keeps the first occurrence of every value, in order.\<close>

lemma remdups_snoc: "remdups (ys @ [v]) = remdups (filter (\<lambda>x. x \<noteq> v) ys) @ [v]"
  by (induction ys) auto

lemma pushUnique_eq:
  "pushUnique acc vals = acc @ rev (remdups (rev (filter (\<lambda>v. v \<notin> set acc) vals)))"
proof (induction vals arbitrary: acc)
  case Nil
  then show ?case by simp
next
  case (Cons v vs)
  show ?case
  proof (cases "v \<in> set acc")
    case True
    then show ?thesis using Cons.IH[of acc] by simp
  next
    case False
    have f: "filter (\<lambda>x. x \<noteq> v) (rev (filter (\<lambda>x. x \<notin> set acc) vs))
               = rev (filter (\<lambda>x. x \<notin> set (acc @ [v])) vs)"
      by (simp add: rev_filter[symmetric] conj_commute)
    show ?thesis using False Cons.IH[of "acc @ [v]"]
      by (simp add: remdups_snoc f)
  qed
qed

lemma arrAdd_eq: "arrAdd listA listB = rev (remdups (rev (listA @ listB)))"
  using pushUnique_eq[of "[]" "listA @ listB"] by (simp add: arrAdd_def)

lemma filterRouterIps_all2:
  "filterRouterIps privateIps = Inr lanMatched \<Longrightarrow>
     list_all2 (\<lambda>ip rip. longestPrefixMatch ROUTER_IPS (Some ip) = Inr rip) privateIps lanMatched"
  by (induction privateIps arbitrary: lanMatched) (auto split: sum.splits)


text \<open>
  Every entry of \<open>ROUTER_IPS\<close> parses, so \<open>filterRouterIps\<close> returns for every
  list of local IPs that parse.
\<close>

lemma prefixMatches_total:
  "list_all (\<lambda>v. \<exists>ip. IPv4_parse (Some v) = Inr ip) ipList \<Longrightarrow> \<exists>pm. prefixMatches ipList m = Inr pm"
  by (induction ipList) auto

lemma ROUTER_IPS_parse: "list_all (\<lambda>v. \<exists>ip. IPv4_parse (Some v) = Inr ip) ROUTER_IPS"
proof -
  have "list_all (\<lambda>v. case IPv4_parse (Some v) of Inl err \<Rightarrow> False | Inr ip \<Rightarrow> True) ROUTER_IPS"
    by code_simp
  then show ?thesis
    by (rule list.pred_mono_strong) (auto split: sum.splits)
qed

lemma longestPrefixMatch_ROUTER_IPS_total:
  "IPv4_parse (Some ip) = Inr m \<Longrightarrow> \<exists>r. longestPrefixMatch ROUTER_IPS (Some ip) = Inr r"
  using prefixMatches_total[OF ROUTER_IPS_parse, of m]
  by (auto simp: longestPrefixMatch_def)

lemma filterRouterIps_total:
  "list_all (\<lambda>v. \<exists>ip. IPv4_parse (Some v) = Inr ip) privateIps \<Longrightarrow>
     \<exists>lanMatched. filterRouterIps privateIps = Inr lanMatched"
proof (induction privateIps)
  case Nil
  then show ?case by simp
next
  case (Cons ip ips)
  then obtain m where "IPv4_parse (Some ip) = Inr m" by auto
  from longestPrefixMatch_ROUTER_IPS_total[OF this] obtain r
    where "longestPrefixMatch ROUTER_IPS (Some ip) = Inr r" by blast
  moreover from Cons obtain rest where "filterRouterIps ips = Inr rest" by auto
  ultimately show ?case by simp
qed

text \<open>
  What the waves are by construction, whatever \<open>longestPrefixMatch\<close> returns: the
  first wave is the cache followed by the results of \<open>filterRouterIps\<close>, each value
  kept where it first occurs; the second wave is \<open>ROUTER_IPS\<close> without the values of
  the first; datagrams go to addresses of the wave at hand only, and none is sent for
  the second wave unless the Mapping after the first wave still has the external
  port -1.
\<close>

lemma candidate_waves:
  assumes g: "getPrivateIps e st = (Inr privateIps, st1)"
    and f: "filterRouterIps privateIps = Inr lanMatched"
    and m: "matched = matchedRouterIps (routerIpCache st) lanMatched"
    and w1: "sendPcpRequests e intPort extPort reqLifetime matched mapping st1 = (mapping1, st2)"
    and w: "sendPcpRequestsInWaves e intPort extPort reqLifetime mapping st = (r, st3)"
  shows "list_all2 (\<lambda>ip rip. longestPrefixMatch ROUTER_IPS (Some ip) = Inr rip) privateIps lanMatched
       \<and> matched = rev (remdups (rev (map Some (routerIpCache st) @ lanMatched)))
       \<and> distinct matched
       \<and> set matched = Some ` set (routerIpCache st) \<union> set lanMatched
       \<and> otherRouterIps matched = filter (\<lambda>rip. rip \<notin> set matched) (map Some ROUTER_IPS)
       \<and> (\<exists>wave1 wave2.
             sent st2 = sent st @ wave1 \<and> Some ` fst ` set wave1 \<subseteq> set matched
           \<and> sent st3 = sent st2 @ wave2 \<and> Some ` fst ` set wave2 \<subseteq> set (otherRouterIps matched)
           \<and> (wave2 \<noteq> [] \<longrightarrow> externalPort mapping1 = -1))"
proof -
  note f1 = getPrivateIps_frame[OF g]
  have a: "list_all2 (\<lambda>ip rip. longestPrefixMatch ROUTER_IPS (Some ip) = Inr rip) privateIps lanMatched"
    by (rule filterRouterIps_all2[OF f])
  have b: "matched = rev (remdups (rev (map Some (routerIpCache st) @ lanMatched)))"
    by (simp add: m matchedRouterIps_def arrAdd_eq)
  have c: "distinct matched" by (simp add: b)
  have d: "set matched = Some ` set (routerIpCache st) \<union> set lanMatched" by (auto simp: b)
  have o: "otherRouterIps matched = filter (\<lambda>rip. rip \<notin> set matched) (map Some ROUTER_IPS)"
    by (simp add: otherRouterIps_def arrDiff_def)
  from sendPcpRequests_frame[OF w1] f1 obtain wave1
    where s1: "sent st2 = sent st @ wave1" "Some ` fst ` set wave1 \<subseteq> set matched"
    by auto
  obtain mapping2 st2' where w2:
    "sendPcpRequests e intPort extPort reqLifetime (otherRouterIps matched) mapping1 st2 = (mapping2, st2')"
    by (cases "sendPcpRequests e intPort extPort reqLifetime (otherRouterIps matched) mapping1 st2")
  from sendPcpRequests_frame[OF w2] obtain new2
    where s2: "sent st2' = sent st2 @ new2" "Some ` fst ` set new2 \<subseteq> set (otherRouterIps matched)"
    by auto
  have m': "matchedRouterIps (routerIpCache st1) lanMatched = matched" using m f1 by simp
  have "\<exists>wave2. sent st3 = sent st2 @ wave2 \<and> Some ` fst ` set wave2 \<subseteq> set (otherRouterIps matched)
           \<and> (wave2 \<noteq> [] \<longrightarrow> externalPort mapping1 = -1)"
  proof (cases "externalPort mapping1 \<noteq> -1")
    case True
    then have "st3 = st2" using w g f w1 m'
      by (simp add: sendPcpRequestsInWaves_def Let_def)
    then show ?thesis by simp
  next
    case False
    then have "st3 = st2'" using w g f w1 w2 m'
      by (simp add: sendPcpRequestsInWaves_def Let_def)
    then show ?thesis using s2 False by auto
  qed
  then obtain wave2 where s3: "sent st3 = sent st2 @ wave2"
      "Some ` fst ` set wave2 \<subseteq> set (otherRouterIps matched)"
      "wave2 \<noteq> [] \<longrightarrow> externalPort mapping1 = -1"
    by blast
  have "\<exists>wave1 wave2.
             sent st2 = sent st @ wave1 \<and> Some ` fst ` set wave1 \<subseteq> set matched
           \<and> sent st3 = sent st2 @ wave2 \<and> Some ` fst ` set wave2 \<subseteq> set (otherRouterIps matched)
           \<and> (wave2 \<noteq> [] \<longrightarrow> externalPort mapping1 = -1)"
    using s1 s3 by blast
  with a b c d o show ?thesis by (intro conjI)
qed

lemma candidate_waves_farRouter:
  "getPrivateIps farRouter new_PortControl = (Inr [''192.168.1.42''], new_PortControl\<lparr> ipCalls := 1 \<rparr>)
   \<and> filterRouterIps [''192.168.1.42''] = Inr [Some ''192.168.1.1'']
   \<and> [Some ''192.168.1.1''] = matchedRouterIps (routerIpCache new_PortControl) [Some ''192.168.1.1'']
   \<and> otherRouterIps [Some ''192.168.1.1''] = map Some (tl ROUTER_IPS)
   \<and> externalPort (fst (sendPcpRequests farRouter 4000 4000 120 [Some ''192.168.1.1'']
                     (new_Mapping\<lparr> internalPort := Some 4000, protocol := Some ''pcp'' \<rparr>)
                     (new_PortControl\<lparr> ipCalls := 1 \<rparr>))) = -1
   \<and> (\<exists>wave1 wave2.
         sent (snd (sendPcpRequests farRouter 4000 4000 120 [Some ''192.168.1.1'']
                     (new_Mapping\<lparr> internalPort := Some 4000, protocol := Some ''pcp'' \<rparr>)
                     (new_PortControl\<lparr> ipCalls := 1 \<rparr>))) = sent new_PortControl @ wave1
       \<and> Some ` fst ` set wave1 \<subseteq> set [Some ''192.168.1.1'']
       \<and> sent (snd (sendPcpRequestsInWaves farRouter 4000 4000 120
                     (new_Mapping\<lparr> internalPort := Some 4000, protocol := Some ''pcp'' \<rparr>)
                     new_PortControl))
           = sent (snd (sendPcpRequests farRouter 4000 4000 120 [Some ''192.168.1.1'']
                     (new_Mapping\<lparr> internalPort := Some 4000, protocol := Some ''pcp'' \<rparr>)
                     (new_PortControl\<lparr> ipCalls := 1 \<rparr>))) @ wave2
       \<and> Some ` fst ` set wave2 \<subseteq> set (otherRouterIps [Some ''192.168.1.1'']))"
proof -
  let ?m = "new_Mapping\<lparr> internalPort := Some 4000, protocol := Some ''pcp'' \<rparr>"
  let ?st1 = "new_PortControl\<lparr> ipCalls := 1 \<rparr>"
  let ?W1 = "sendPcpRequests farRouter 4000 4000 120 [Some ''192.168.1.1''] ?m ?st1"
  let ?W = "sendPcpRequestsInWaves farRouter 4000 4000 120 ?m new_PortControl"
  have g: "getPrivateIps farRouter new_PortControl = (Inr [''192.168.1.42''], ?st1)"
    by (simp add: getPrivateIps_def farRouter_def new_PortControl_def)
  have f: "filterRouterIps [''192.168.1.42''] = Inr [Some ''192.168.1.1'']" by code_simp
  have m: "[Some ''192.168.1.1''] = matchedRouterIps (routerIpCache new_PortControl) [Some ''192.168.1.1'']"
    by code_simp
  have o: "otherRouterIps [Some ''192.168.1.1''] = map Some (tl ROUTER_IPS)" by code_simp
  have w1: "?W1 = (fst ?W1, snd ?W1)" by (rule prod.collapse[symmetric])
  have w: "?W = (fst ?W, snd ?W)" by (rule prod.collapse[symmetric])
  have ev: "externalPort (fst ?W1) = -1" by code_simp
  note cw = candidate_waves[OF g f m w1 w]
  from cw have "\<exists>wave1 wave2.
             sent (snd ?W1) = sent new_PortControl @ wave1
           \<and> Some ` fst ` set wave1 \<subseteq> set [Some ''192.168.1.1'']
           \<and> sent (snd ?W) = sent (snd ?W1) @ wave2
           \<and> Some ` fst ` set wave2 \<subseteq> set (otherRouterIps [Some ''192.168.1.1''])
           \<and> (wave2 \<noteq> [] \<longrightarrow> externalPort (fst ?W1) = -1)"
    by (elim conjE)
  then obtain wave1 wave2 where x:
    "sent (snd ?W1) = sent new_PortControl @ wave1"
    "Some ` fst ` set wave1 \<subseteq> set [Some ''192.168.1.1'']"
    "sent (snd ?W) = sent (snd ?W1) @ wave2"
    "Some ` fst ` set wave2 \<subseteq> set (otherRouterIps [Some ''192.168.1.1''])"
    by (elim exE conjE)
  have "\<exists>wave1 wave2.
             sent (snd ?W1) = sent new_PortControl @ wave1
           \<and> Some ` fst ` set wave1 \<subseteq> set [Some ''192.168.1.1'']
           \<and> sent (snd ?W) = sent (snd ?W1) @ wave2
           \<and> Some ` fst ` set wave2 \<subseteq> set (otherRouterIps [Some ''192.168.1.1''])"
    by (intro exI[of _ wave1] exI[of _ wave2] conjI x)
  with g f m o ev show ?thesis by (intro conjI)
qed

text \<open>
  Claim C8, evaluated.  The cache is empty and the host address is 10.0.0.3.  Among
  \<open>ROUTER_IPS\<close> the longest prefix match of 10.0.0.3 is 10.0.0.2, with 31 shared
  bits, but \<open>longestPrefixMatch\<close> pushes no length for that entry and returns
  10.0.0.13, with 28 shared bits.  The first wave of the code is 10.0.0.13 alone, where
  the claim says 10.0.0.2; 10.0.0.2 is in the second wave, and the datagrams of the
  first wave go to 10.0.0.13 only.
\<close>

theorem first_wave_misses_longest_prefix_match:
  "getPrivateIps tenNetwork new_PortControl
     = (Inr [''10.0.0.3''], new_PortControl\<lparr> ipCalls := 1 \<rparr>)
   \<and> filterRouterIps [''10.0.0.3''] = Inr [Some ''10.0.0.13'']
   \<and> matchedRouterIps (routerIpCache new_PortControl) [Some ''10.0.0.13''] = [Some ''10.0.0.13'']
   \<and> spec_longestPrefixMatch ROUTER_IPS ''10.0.0.3'' = Some ''10.0.0.2''
   \<and> spec_prefixLength [10, 0, 0, 2] [10, 0, 0, 3] = 31
   \<and> spec_prefixLength [10, 0, 0, 13] [10, 0, 0, 3] = 28
   \<and> Some ''10.0.0.2'' \<in> set (otherRouterIps [Some ''10.0.0.13''])
   \<and> map fst (sent (snd (sendPcpRequests tenNetwork 4000 4000 120 [Some ''10.0.0.13'']
                     (new_Mapping\<lparr> internalPort := Some 4000, protocol := Some ''pcp'' \<rparr>)
                     (new_PortControl\<lparr> ipCalls := 1 \<rparr>)))) = [''10.0.0.13'']"
  by code_simp

text \<open>
  In the second wave the fan-out ends at 10.0.0.2 without a datagram: the private IP
  chosen for it is \<open>undefined\<close>, and parsing it throws.
\<close>

lemma second_wave_stops_at_closest_router:
  "longestPrefixMatch [''10.0.0.3''] (Some ''10.0.0.2'') = Inr None
   \<and> (case sendAddRequests tenNetwork [''10.0.0.3''] 4000 4000 120
              [Some ''10.0.0.2'', Some ''10.0.0.138''] new_PortControl of
        (r, st') \<Rightarrow> r = Inl ParseError \<and> sent st' = [])"
  by code_simp

section \<open>The result code of a reply\<close>

text \<open>
  No step of \<open>addMapping\<close> depends on the result code of a reply, and every returned
  Mapping whose external port is not -1 is in the registry under that port.
\<close>

lemma adopt_result_code: "adopt (reply[3 := c]) privateIp m = adopt reply privateIp m"
  by (simp add: adopt_def getUint8_def getUint16_def getUint32_def in_range_def)

lemma getPrivateIps_result_code: "getPrivateIps (withResultCode c e) st = getPrivateIps e st"
  by (simp add: getPrivateIps_def withResultCode_def)

lemma randInt32_result_code: "randInt32 (withResultCode c e) st = randInt32 e st"
  by (simp add: randInt32_def withResultCode_def)

lemma pickNonce_result_code: "pickNonce (withResultCode c e) n st = pickNonce e n st"
  by (cases n) (simp_all add: pickNonce_def randInt32_result_code)

lemma router_result_code:
  "router (withResultCode c e) k rip buf = map_option (\<lambda>reply. reply[3 := c]) (router e k rip buf)"
  by (simp add: withResultCode_def)

lemma sendPcpRequest_result_code:
  "sendPcpRequest (withResultCode c e) rip p i x l n st
     = (case sendPcpRequest e rip p i x l n st of
          (q, s) \<Rightarrow> (map_sum id (map_sum id (\<lambda>reply. reply[3 := c])) q, s))"
proof -
  obtain nonce1 st1 where pn: "pickNonce e n st = (nonce1, st1)" by (cases "pickNonce e n st")
  show ?thesis
  proof (cases "IPv4_parse p")
    case (Inl err)
    then show ?thesis by (simp add: sendPcpRequest_def pickNonce_result_code pn)
  next
    case (Inr ipOctets)
    note ip = Inr
    show ?thesis
    proof (cases "pcpBuffer ipOctets i x l nonce1")
      case (Inl err)
      then show ?thesis by (simp add: sendPcpRequest_def pickNonce_result_code pn ip)
    next
      case (Inr buf)
      then show ?thesis
        by (cases "router e (length (sent st1)) rip buf")
           (simp_all add: sendPcpRequest_def pickNonce_result_code pn ip router_result_code)
    qed
  qed
qed

lemma sendAddRequests_result_code:
  "sendAddRequests (withResultCode c e) ips i x l routerIps st
     = (case sendAddRequests e ips i x l routerIps st of
          (Inl err, s) \<Rightarrow> (Inl err, s)
        | (Inr rs, s) \<Rightarrow> (Inr (recodeReplies c rs), s))"
proof (induction routerIps arbitrary: st)
  case Nil
  then show ?case by simp
next
  case (Cons routerIp routerIps)
  show ?case
  proof (cases "longestPrefixMatch ips routerIp")
    case (Inl err)
    then show ?thesis by simp
  next
    case (Inr privateIp)
    note lp = Inr
    show ?thesis
    proof (cases routerIp)
      case None
      then show ?thesis using lp by simp
    next
      case (Some rip)
      obtain q st1 where s: "sendPcpRequest e rip privateIp i x l None st = (q, st1)"
        by (cases "sendPcpRequest e rip privateIp i x l None st")
      obtain q2 st2 where t: "sendAddRequests e ips i x l routerIps st1 = (q2, st2)"
        by (cases "sendAddRequests e ips i x l routerIps st1")
      show ?thesis
        using lp Some s t Cons.IH[of st1]
        by (auto simp: sendPcpRequest_result_code split: sum.splits)
    qed
  qed
qed

lemma adoptResponses_result_code:
  "adoptResponses (recodeReplies c rs) m cache = adoptResponses rs m cache"
proof (induction rs arbitrary: m cache)
  case Nil
  then show ?case by simp
next
  case (Cons a rs)
  obtain rip v where a: "a = (rip, v)" by (cases a)
  show ?case
  proof (cases v)
    case None
    then show ?thesis using a Cons.IH by simp
  next
    case (Some rp)
    obtain reply p where rp: "rp = (reply, p)" by (cases rp)
    obtain err m1 where ad: "adopt reply p m = (err, m1)" by (cases "adopt reply p m")
    show ?thesis using a Some rp ad Cons.IH
      by (cases err) (simp_all add: adopt_result_code)
  qed
qed

lemma sendPcpRequests_result_code:
  "sendPcpRequests (withResultCode c e) i x l routerIps m st = sendPcpRequests e i x l routerIps m st"
proof -
  obtain q st1 where g: "getPrivateIps e st = (q, st1)" by (cases "getPrivateIps e st")
  show ?thesis
  proof (cases q)
    case (Inl err)
    then show ?thesis using g by (simp add: sendPcpRequests_def getPrivateIps_result_code)
  next
    case (Inr ips)
    obtain q2 st2 where t: "sendAddRequests e ips i x l routerIps st1 = (q2, st2)"
      by (cases "sendAddRequests e ips i x l routerIps st1")
    show ?thesis using g Inr t
      by (cases q2)
         (simp_all add: sendPcpRequests_def getPrivateIps_result_code sendAddRequests_result_code
            adoptResponses_result_code)
  qed
qed

lemma sendPcpRequestsInWaves_result_code:
  "sendPcpRequestsInWaves (withResultCode c e) i x l m st = sendPcpRequestsInWaves e i x l m st"
  unfolding sendPcpRequestsInWaves_def getPrivateIps_result_code sendPcpRequests_result_code
  by (rule refl)

lemma pcp_addMapping_result_code:
  "pcp_addMapping (withResultCode c e) i x l st = pcp_addMapping e i x l st"
  unfolding pcp_addMapping_def sendPcpRequestsInWaves_result_code
  by (rule refl)

lemma lookup_assign: "lookup (assign k v obj) k = Some v"
proof (cases "k \<in> fst ` set obj")
  case False
  then have "map_of obj k = None" by (simp add: map_of_eq_None_iff)
  with False show ?thesis by (simp add: lookup_def assign_def map_add_def)
next
  case True
  have "k \<in> fst ` set xs \<Longrightarrow>
        map_of (map (\<lambda>(k', v'). if k' = k then (k, v) else (k', v')) xs) k = Some v" for xs
    by (induction xs) auto
  with True show ?thesis by (simp add: lookup_def assign_def)
qed

lemma saveAndRefreshMapping_registers:
  assumes "saveAndRefreshMapping intPort lifetime' reqLifetime mapping st = (m, st')"
    and "externalPort m \<noteq> -1"
  shows "lookup (activeMappings st') (externalPort m) = Some m"
  using assms
  by (auto simp: saveAndRefreshMapping_def setTimeout_def Let_def lookup_assign split: if_splits)

lemma pcp_addMapping_registers:
  assumes "pcp_addMapping e intPort extPort lifetime' st = (Inr m, st')"
    and "externalPort m \<noteq> -1"
  shows "lookup (activeMappings st') (externalPort m) = Some m"
proof -
  define mapping where "mapping = new_Mapping\<lparr> internalPort := Some intPort, protocol := Some ''pcp'' \<rparr>"
  define reqLifetime where "reqLifetime = (if lifetime' = 0 then 24 * 60 * 60 else lifetime')"
  obtain q st1 where w: "sendPcpRequestsInWaves e intPort extPort reqLifetime mapping st = (q, st1)"
    by (cases "sendPcpRequestsInWaves e intPort extPort reqLifetime mapping st")
  from assms(1) w obtain mapping1 where q: "q = Inr mapping1"
    and s: "saveAndRefreshMapping intPort lifetime' reqLifetime mapping1 st1 = (m, st')"
    by (cases q) (auto simp: pcp_addMapping_def mapping_def reqLifetime_def Let_def split: prod.splits)
  from saveAndRefreshMapping_registers[OF s assms(2)] show ?thesis .
qed

text \<open>
  Claim C6, evaluated.  The router at 192.168.1.1 refuses the request with result
  code 2 and echoes port 4000.  \<open>pcp.addMapping\<close> does not read the result code: it
  returns a Mapping with external port 4000 and registers it, where the claim says
  that the external port stays -1 and nothing is registered.
\<close>

theorem addMapping_adopts_refused_reply:
  "(case pcp_addMapping refusingRouter 4000 4000 120 new_PortControl of
      (Inr m, st') \<Rightarrow>
        externalPort m = 4000 \<and> lookup (activeMappings st') 4000 = Some m
        \<and> (case last (sent st') of
              (routerIp, request) \<Rightarrow>
                routerIp = ''192.168.1.1''
                \<and> getUint8 (mapResponse request 2 4000 0) 3 = Inr 2)
    | (Inl err, st') \<Rightarrow> False)"
  by code_simp

text \<open>The probe for PCP support reports support on the same refusal.\<close>

lemma probeSupport_on_refusal:
  "fst (pcp_probeSupport refusingRouter new_PortControl) = Inr True"
  by code_simp

end
